theory Spec2Isabelle
  imports Main "HOL-Library.AList"
begin

section \<open>Strings of the script\<close>

text \<open>
  The widget is written in JavaScript. Its strings are modelled as HOL strings whose
  characters stand for the code units below 256 (ASCII and the Latin-1 supplement); on
  such text the character classes and conversions below are those of ECMAScript:
  \<^item> \<open>\d\<close> of a regular expression is \<open>is_digit\<close>, \<open>\w\<close> is \<open>is_word\<close>;
  \<^item> \<open>\s\<close>, and the characters removed by \<open>String.prototype.trim\<close>, are
    \<open>is_space\<close>: tab, line feed, vertical tab, form feed, carriage return, space and
    the no-break space;
  \<^item> \<open>toLowerCase\<close> maps \<open>A\<close>..\<open>Z\<close> and the upper-case letters \<open>0xC0\<close>..\<open>0xDE\<close>
    (without the multiplication sign \<open>0xD7\<close>) to the code unit 32 above.
\<close>

definition is_digit :: "char \<Rightarrow> bool" where
  "is_digit c = (c \<in> set ''0123456789'')"

definition is_word :: "char \<Rightarrow> bool" where
  "is_word c =
     (c \<in> set ''abcdefghijklmnopqrstuvwxyzABCDEFGHIJKLMNOPQRSTUVWXYZ0123456789_'')"

definition is_space :: "char \<Rightarrow> bool" where
  "is_space c =
     (c \<in> set [CHR 0x09, CHR 0x0A, CHR 0x0B, CHR 0x0C, CHR 0x0D, CHR 0x20, CHR 0xA0])"

definition lower_char :: "char \<Rightarrow> char" where
  "lower_char c =
     (let n = (of_char c :: nat)
      in if (65 \<le> n \<and> n \<le> 90) \<or> (192 \<le> n \<and> n \<le> 222 \<and> n \<noteq> 215)
         then char_of (n + 32) else c)"

definition toLowerCase :: "string \<Rightarrow> string" where
  "toLowerCase s = map lower_char s"

definition trim :: "string \<Rightarrow> string" where
  "trim s = rev (dropWhile is_space (rev (dropWhile is_space s)))"

text \<open>\<open>s.includes(t)\<close>: \<open>t\<close> occurs in \<open>s\<close> as a contiguous run.\<close>

fun includes_str :: "string \<Rightarrow> string \<Rightarrow> bool" where
  "includes_str [] t = (t = [])"
| "includes_str (c # cs) t = (take (length t) (c # cs) = t \<or> includes_str cs t)"

text \<open>
  \<open>a || b\<close> on an optional string: an absent property (\<open>undefined\<close>) and the empty
  string are falsy, every other string is truthy.
\<close>

definition or_else :: "string option \<Rightarrow> string \<Rightarrow> string" where
  "or_else a b = (case a of None \<Rightarrow> b | Some s \<Rightarrow> if s = [] then b else s)"


section \<open>Money formatter\<close>

subsection \<open>\<open>Number.prototype.toFixed\<close> on an amount in hundredths\<close>

text \<open>
  Both formatters compute \<open>(num / 100).toFixed(precision)\<close> on an integer \<open>num\<close> of
  minor units. \<open>toFixed_hundredths num precision\<close> follows the steps of the ECMAScript
  algorithm on the exact quotient: the sign is split off, \<open>n\<close> is the integer nearest to
  \<open>|num| / 100 * 10 ^ precision\<close> (the larger one on a tie), its decimal digits are padded
  with zeros to \<open>precision + 1\<close> places and the point is put before the last
  \<open>precision\<close> digits. The script computes on doubles. For the precisions 0 and 2 it
  uses, and an amount below \<open>2 ^ 52\<close> in absolute value, the double nearest to
  \<open>num / 100\<close> has the same nearest \<open>n\<close> (its error, times 100, stays below one half, and
  a tie at precision 0 is a double itself), so the script gets this string. The
  formatters below use \<open>toFixed_hundredths\<close> on these arguments only.
\<close>

definition digit_char :: "nat \<Rightarrow> char" where
  "digit_char d = ''0123456789'' ! d"

fun show_nat :: "nat \<Rightarrow> string" where
  "show_nat n = (if n < 10 then [digit_char n] else show_nat (n div 10) @ [digit_char (n mod 10)])"

declare show_nat.simps [simp del]

definition toFixed_hundredths :: "int \<Rightarrow> nat \<Rightarrow> string" where
  "toFixed_hundredths num precision =
     (let x = nat \<bar>num\<bar>;
          n = (x * 10 ^ precision + 50) div 100;
          m = show_nat n;
          m = (if precision = 0 then m
               else (let z = (if length m \<le> precision
                              then replicate (precision + 1 - length m) (CHR ''0'') @ m
                              else m);
                         k = length z
                     in take (k - precision) z @ ''.'' @ drop (k - precision) z))
      in (if num < 0 then ''-'' else '''') @ m)"

subsection \<open>Thousands separators\<close>

text \<open>
  \<open>parts[0].replace(/(\d)(?=(\d{3})+(?!\d))/g, '$1' + thousands)\<close>: the separator is put
  after every digit that is followed by a run of digits whose length is a positive
  multiple of three. \<open>digit_run s\<close> is the length of the run of digits \<open>s\<close> starts with.
\<close>

definition digit_run :: "string \<Rightarrow> nat" where
  "digit_run s = length (takeWhile is_digit s)"

fun insert_thousands :: "string \<Rightarrow> string \<Rightarrow> string" where
  "insert_thousands thousands [] = []"
| "insert_thousands thousands (c # cs) =
     (if is_digit c \<and> 0 < digit_run cs \<and> digit_run cs mod 3 = 0
      then c # thousands @ insert_thousands thousands cs
      else c # insert_thousands thousands cs)"

text \<open>\<open>fixed.split('.')\<close>: the pieces between the points.\<close>

fun split_dot :: "string \<Rightarrow> string list" where
  "split_dot [] = [ [] ]"
| "split_dot (c # cs) =
     (if c = CHR ''.'' then [] # split_dot cs
      else (case split_dot cs of p # ps \<Rightarrow> (c # p) # ps | [] \<Rightarrow> [ [c] ]))"

text \<open>\<open>parts[i]\<close>, \<open>undefined\<close> beyond the end.\<close>

definition part :: "string list \<Rightarrow> nat \<Rightarrow> string option" where
  "part parts i = (if i < length parts then Some (parts ! i) else None)"

subsection \<open>The placeholder \<open>/\{\{\s*(\w+)\s*\}\}/\<close>\<close>

text \<open>
  White space, word characters and the braces are disjoint classes, so the expression
  matches at a position in one way only: two opening braces, all the white space, all the
  word characters (at least one), all the white space, two closing braces.
  \<open>match_here s\<close> is the match at the start of \<open>s\<close>, as the captured key and what follows
  the match; \<open>find_placeholder s\<close> is the leftmost match, as the text before it, the key
  and the text after it.
\<close>

fun strip_prefix :: "string \<Rightarrow> string \<Rightarrow> string option" where
  "strip_prefix [] s = Some s"
| "strip_prefix (p # ps) [] = None"
| "strip_prefix (p # ps) (c # cs) = (if p = c then strip_prefix ps cs else None)"

definition match_here :: "string \<Rightarrow> (string \<times> string) option" where
  "match_here s =
     (case strip_prefix ''{{'' s of
        None \<Rightarrow> None
      | Some r \<Rightarrow>
          (let r1 = dropWhile is_space r;
               key = takeWhile is_word r1;
               r2 = dropWhile is_space (dropWhile is_word r1)
           in if key = [] then None
              else (case strip_prefix ''}}'' r2 of
                      None \<Rightarrow> None
                    | Some rest \<Rightarrow> Some (key, rest))))"

fun find_placeholder :: "string \<Rightarrow> (string \<times> string \<times> string) option" where
  "find_placeholder [] = None"
| "find_placeholder (c # cs) =
     (case match_here (c # cs) of
        Some (key, rest) \<Rightarrow> Some ([], key, rest)
      | None \<Rightarrow>
          (case find_placeholder cs of
             None \<Rightarrow> None
           | Some (before, key, rest) \<Rightarrow> Some (c # before, key, rest)))"

text \<open>
  \<open>fmt.replace(placeholder, value)\<close> replaces the leftmost match and returns \<open>fmt\<close>
  itself when there is none. The values the formatters insert contain no \<open>$\<close>, so no
  replacement pattern is expanded.
\<close>

definition replace_placeholder :: "string \<Rightarrow> string \<Rightarrow> string" where
  "replace_placeholder fmt v =
     (case find_placeholder fmt of
        None \<Rightarrow> fmt
      | Some (before, key, rest) \<Rightarrow> before @ v @ rest)"

subsection \<open>\<open>formatMoney\<close> of \<open>assets/product-grid-popup.js\<close>\<close>

text \<open>
  The globals the formatters read: \<open>window.theme.moneyFormat\<close> and
  \<open>window.Theme.moneyFormat\<close>, \<open>None\<close> when the object or the property is missing,
  whether \<open>window.theme.CartDrawer\<close> exists, and two built-ins of the script engine where
  the model does not compute them: \<open>parseInt_beyond n\<close> is the number
  \<open>parseInt(n, 10) || 0\<close> and \<open>toFixed_beyond n p\<close> the string \<open>(n / 100).toFixed(p)\<close>
  that the engine gives for a number \<open>n\<close> outside the range of \<open>safe_amount\<close> (and, for
  \<open>toFixed\<close>, for a precision other than 0 and 2). There the answers depend on the
  rounding of doubles and on the exponent notation of large numbers; they are taken as
  they are, and nothing is assumed about them.
\<close>

record window =
  theme_moneyFormat :: "string option"
  Theme_moneyFormat :: "string option"
  theme_CartDrawer :: bool
  parseInt_beyond :: "int \<Rightarrow> int"
  toFixed_beyond :: "int \<Rightarrow> nat \<Rightarrow> string"

text \<open>
  The amounts on which the model computes what the engine computes: the integers below
  \<open>2 ^ 52\<close> in absolute value. Each of them is a double, \<open>String\<close> writes it with all
  its digits and \<open>parseInt\<close> reads it back.
\<close>

definition safe_amount :: "int \<Rightarrow> bool" where
  "safe_amount n = (\<bar>n\<bar> < 2 ^ 52)"

text \<open>\<open>parseInt(cents, 10) || 0\<close> on a number.\<close>

definition parseInt_number :: "window \<Rightarrow> int \<Rightarrow> int" where
  "parseInt_number w cents = (if safe_amount cents then cents else parseInt_beyond w cents)"

text \<open>\<open>(num / 100).toFixed(precision)\<close>.\<close>

definition toFixed :: "window \<Rightarrow> int \<Rightarrow> nat \<Rightarrow> string" where
  "toFixed w num precision =
     (if safe_amount num \<and> (precision = 0 \<or> precision = 2)
      then toFixed_hundredths num precision
      else toFixed_beyond w num precision)"

text \<open>
  \<open>delimit(num, precision, thousands, decimal)\<close>; an argument the call leaves out is
  \<open>None\<close>. The first argument of the model is the engine the function runs on.
\<close>

definition delimit :: "window \<Rightarrow> int \<Rightarrow> nat option \<Rightarrow> string option \<Rightarrow> string option \<Rightarrow> string" where
  "delimit w num precision thousands decimal =
     (let precision = (case precision of None \<Rightarrow> 2 | Some p \<Rightarrow> p);
          thousands = or_else thousands '','';
          decimal = or_else decimal ''.'';
          fixed = toFixed w num precision;
          parts = split_dot fixed;
          left = insert_thousands thousands (parts ! 0)
      in case part parts 1 of
           None \<Rightarrow> left
         | Some p1 \<Rightarrow> if p1 = [] then left else left @ decimal @ p1)"

text \<open>
  The price is a number of the product JSON with an integer value, so the branch for a
  string argument is not taken. \<open>parseInt(cents, 10) || 0\<close> returns a safe amount as it
  is given; beyond, it returns what the engine makes of it.
\<close>

definition formatMoney :: "window \<Rightarrow> int \<Rightarrow> string" where
  "formatMoney w cents =
     (let cents = parseInt_number w cents;
          fmt = or_else (theme_moneyFormat w) (or_else (Theme_moneyFormat w) ''${{amount}}'');
          key = (case find_placeholder fmt of
                   None \<Rightarrow> ''amount''
                 | Some (before, k, rest) \<Rightarrow> k);
          v = (if key = ''amount'' then delimit w cents (Some 2) None None
               else if key = ''amount_no_decimals'' then delimit w cents (Some 0) None None
               else if key = ''amount_with_comma_separator''
                 then delimit w cents (Some 2) (Some ''.'') (Some '','')
               else if key = ''amount_no_decimals_with_comma_separator''
                 then delimit w cents (Some 0) (Some ''.'') (Some '','')
               else if key = ''amount_no_decimals_with_space_separator''
                 then delimit w cents (Some 0) (Some '' '') None
               else delimit w cents (Some 2) None None)
      in replace_placeholder fmt v)"


section \<open>Data model\<close>

text \<open>
  A variant of the product JSON: its \<open>id\<close>, its \<open>price\<close> in minor units, the
  positional option values \<open>option1\<close>..\<open>option3\<close> (\<open>None\<close> for \<open>null\<close> or an absent
  property) and, when the variant has a \<open>featured_image\<close> object, that object's \<open>src\<close>.
\<close>

record variant =
  variant_id :: int
  price :: int
  option1 :: "string option"
  option2 :: "string option"
  option3 :: "string option"
  featured_image :: "string option"

text \<open>
  The product. \<open>assets/product-grid-popup.js\<close> reads the entries of \<open>options\<close> as the
  option names themselves, a \<open>string product\<close>; the class \<open>ProductGridPopup\<close> reads
  them as objects with a \<open>name\<close>, a \<open>product_option product\<close>. The product JSON
  always has the array, so the test \<open>!product.options\<close> of the renderers is false.
\<close>

record 'o product =
  options :: "'o list"
  variants :: "variant list"

text \<open>
  The selection state is a script object from option names to chosen values, kept as
  an association list in insertion order: \<open>Object.keys\<close> is \<open>map fst\<close>,
  \<open>Object.values\<close> is \<open>map snd\<close>, \<open>selections[k]\<close> is \<open>map_of selections k\<close> and the
  assignment \<open>selections[k] = v\<close> is \<open>AList.update k v\<close>. The script only asks whether
  every or some entry has a property, so the order of the keys has no influence.
\<close>

type_synonym selection_state = "(string \<times> string) list"

text \<open>\<open>v['option' + position]\<close>: a variant has no property beyond \<open>option3\<close>.\<close>

definition option_at :: "variant \<Rightarrow> nat \<Rightarrow> string option" where
  "option_at v position =
     (if position = 1 then option1 v
      else if position = 2 then option2 v
      else if position = 3 then option3 v
      else None)"

text \<open>\<open>Array.prototype.indexOf\<close> and \<open>findIndex\<close>; \<open>None\<close> stands for \<open>-1\<close>.\<close>

fun indexOf :: "'a list \<Rightarrow> 'a \<Rightarrow> nat option" where
  "indexOf [] x = None"
| "indexOf (y # ys) x = (if y = x then Some 0 else map_option Suc (indexOf ys x))"

fun findIndex :: "('a \<Rightarrow> bool) \<Rightarrow> 'a list \<Rightarrow> nat option" where
  "findIndex P [] = None"
| "findIndex P (y # ys) = (if P y then Some 0 else map_option Suc (findIndex P ys))"

text \<open>
  \<open>getUniqueOptionValues(product, position)\<close>, the same loop as \<open>getOptionValues\<close> of
  the class: the truthy values (not \<open>null\<close>, not empty) at the position, each once, in
  the order of the variants.
\<close>

definition getUniqueOptionValues :: "'o product \<Rightarrow> nat \<Rightarrow> string list" where
  "getUniqueOptionValues product position =
     foldl (\<lambda>seen v.
              case option_at v position of
                None \<Rightarrow> seen
              | Some val \<Rightarrow> if val \<noteq> [] \<and> val \<notin> set seen then seen @ [val] else seen)
           [] (variants product)"

text \<open>
  What the pickers put into the variant container: per option a group with the option
  name as its label and one control, a dropdown (the text of its disabled placeholder
  entry, the values offered, the value selected) or a row of buttons (their texts and
  the index of the one marked active).
\<close>

datatype control =
  Select string "string list" string
| Buttons "string list" "nat option"

record variant_group =
  label :: string
  control :: control

text \<open>
  The content of the submit control: the markup the page gave it, or one of the texts
  the script writes (\<open>Adding\<close>, \<open>Added\<close> and \<open>Error_try_again\<close> stand for the three
  texts of \<open>assets/product-grid-popup.js\<close>, which have an ellipsis, a check mark and a
  dash beyond the characters of the string model; the texts of the class are plain and
  written out).
\<close>

datatype content = Html string | Adding | Added | Error_try_again

text \<open>What a timer started by \<open>setTimeout\<close> does when it fires.\<close>

datatype timer = Close_and_restore content | Restore content

text \<open>An entry of the \<open>items\<close> array posted to the cart.\<close>

record item =
  item_id :: int
  quantity :: nat

text \<open>
  The network. A \<open>fetch\<close> rejects (\<open>Network_error\<close>) or resolves with a response that
  has an \<open>ok\<close> flag and a body, and \<open>json()\<close> on the body rejects (\<open>Invalid_json\<close>) or
  gives a value. The JSON of the bundle product is \<open>null\<close> or an object whose
  \<open>variants\<close> may be absent; the cart JSON has an \<open>item_count\<close>.
\<close>

datatype 'a body = Invalid_json | Json 'a

datatype 'a response = Network_error | Http bool "'a body"

datatype bundle_json = Json_null | Json_product "variant list option"

record cart =
  item_count :: int

record network =
  jacket_response :: "bundle_json response"
  cart_add_response :: "unit response"
  cart_response :: "cart response"

text \<open>What a handler does to the world outside the popup, in the order it does it.\<close>

datatype effect =
  Fetch_jacket
| Post_cart_add "item list"
| Fetch_cart
| Set_cart_count int
| CartDrawer_update
| Dispatch_event string cart
| Console_log
| Console_warn
| Console_error
| Alert string


section \<open>The widget of \<open>assets/product-grid-popup.js\<close>\<close>

text \<open>
  The module's variables and the parts of the page it writes. The elements of the popup
  shell are taken as present, as the handlers below are only attached when the popup
  is, and \<open>handleAddToCart\<close> dereferences the submit control without a guard.
\<close>

record popup_state =
  currentProduct :: "string product option"
  selectedVariant :: "variant option"
  selections :: selection_state
  popup_aria_hidden :: bool
  elVariants :: "variant_group list"
  elVarId_value :: "int option"
  elPrice_text :: string
  elImg_src :: string
  elAtcBtn_disabled :: bool
  elAtcBtn_content :: content
  timers :: "(nat \<times> timer) list"

definition closePopup :: "popup_state \<Rightarrow> popup_state" where
  "closePopup s =
     s\<lparr>popup_aria_hidden := True, currentProduct := None, selectedVariant := None,
       selections := []\<rparr>"

subsection \<open>Variant rendering\<close>

definition buildSelect :: "string \<Rightarrow> string list \<Rightarrow> selection_state \<Rightarrow> control \<times> selection_state" where
  "buildSelect name values sel =
     (case values of
        [] \<Rightarrow> (Select (''Choose your '' @ toLowerCase name) values [], sel)
      | v # vs \<Rightarrow> (Select (''Choose your '' @ toLowerCase name) values v, AList.update name v sel))"

definition buildButtons :: "string \<Rightarrow> string list \<Rightarrow> selection_state \<Rightarrow> control \<times> selection_state" where
  "buildButtons name values sel =
     (case values of
        [] \<Rightarrow> (Buttons values None, sel)
      | v # vs \<Rightarrow> (Buttons values (Some 0), AList.update name v sel))"

text \<open>
  The body of \<open>product.options.forEach\<close>, from the index \<open>idx\<close> on: the groups built and
  the selection state after them.
\<close>

fun render_options :: "string product \<Rightarrow> nat \<Rightarrow> string list \<Rightarrow> selection_state \<Rightarrow> variant_group list \<times> selection_state" where
  "render_options product idx [] sel = ([], sel)"
| "render_options product idx (optionName # rest) sel =
     (let position = idx + 1;
          values = getUniqueOptionValues product position
      in if values = [] then render_options product (idx + 1) rest sel
         else (let (c, sel1) = (if toLowerCase optionName = ''size''
                                then buildSelect optionName values sel
                                else buildButtons optionName values sel);
                   (groups, sel2) = render_options product (idx + 1) rest sel1
               in (\<lparr>label = optionName, control = c\<rparr> # groups, sel2)))"

definition renderVariantSelectors :: "string product \<Rightarrow> popup_state \<Rightarrow> popup_state" where
  "renderVariantSelectors product s =
     (if length (options product) = 0
         \<or> (length (options product) = 1 \<and> options product ! 0 = ''Title'')
      then s\<lparr>elVariants := []\<rparr>
      else (let (groups, sel) = render_options product 0 (options product) (selections s)
            in s\<lparr>elVariants := groups, selections := sel\<rparr>))"

subsection \<open>Variant resolution\<close>

text \<open>The variant \<open>currentProduct.variants.find(...)\<close> gives, \<open>None\<close> for \<open>undefined\<close>.\<close>

definition match_variant :: "string product \<Rightarrow> selection_state \<Rightarrow> variant option" where
  "match_variant product sel =
     find (\<lambda>v. list_all (\<lambda>optName.
                   case indexOf (options product) optName of
                     None \<Rightarrow> True
                   | Some idx \<Rightarrow> option_at v (idx + 1) = map_of sel optName)
                 (map fst sel))
          (variants product)"

definition resolveVariant :: "window \<Rightarrow> popup_state \<Rightarrow> popup_state" where
  "resolveVariant w s =
     (case currentProduct s of
        None \<Rightarrow> s
      | Some product \<Rightarrow>
          (case match_variant product (selections s) of
             None \<Rightarrow> s
           | Some match \<Rightarrow>
               s\<lparr>selectedVariant := Some match,
                 elVarId_value := Some (variant_id match),
                 elPrice_text := formatMoney w (price match),
                 elImg_src := (case featured_image match of
                                 None \<Rightarrow> elImg_src s
                               | Some src \<Rightarrow> src)\<rparr>))"

subsection \<open>Add to cart\<close>

definition refreshCart :: "network \<Rightarrow> effect list" where
  "refreshCart net =
     Fetch_cart #
     (case cart_response net of
        Network_error \<Rightarrow> [Console_warn]
      | Http ok Invalid_json \<Rightarrow> [Console_warn]
      | Http ok (Json c) \<Rightarrow> [Set_cart_count (item_count c), Dispatch_event ''cart:update'' c])"

definition run_timer :: "timer \<Rightarrow> popup_state \<Rightarrow> popup_state" where
  "run_timer t s =
     (case t of
        Close_and_restore origHTML \<Rightarrow>
          (closePopup s)\<lparr>elAtcBtn_content := origHTML, elAtcBtn_disabled := False\<rparr>
      | Restore origHTML \<Rightarrow> s\<lparr>elAtcBtn_content := origHTML, elAtcBtn_disabled := False\<rparr>)"

text \<open>
  The \<open>try\<close> block of the bundle rule: the effects, and the items after it. A rejected
  \<open>fetch\<close> or \<open>json()\<close> is caught and logged; a response that is not \<open>ok\<close>, a \<open>null\<close>
  body and a product without variants leave the items as they are.
\<close>

definition fetch_jacket :: "network \<Rightarrow> item list \<Rightarrow> effect list \<times> item list" where
  "fetch_jacket net items =
     (case jacket_response net of
        Network_error \<Rightarrow> ([Fetch_jacket, Console_warn], items)
      | Http ok b \<Rightarrow>
          if ok then
            (case b of
               Invalid_json \<Rightarrow> ([Fetch_jacket, Console_warn], items)
             | Json jacket \<Rightarrow>
                 (case jacket of
                    Json_null \<Rightarrow> ([Fetch_jacket], items)
                  | Json_product jacket_variants \<Rightarrow>
                      (case jacket_variants of
                         None \<Rightarrow> ([Fetch_jacket], items)
                       | Some [] \<Rightarrow> ([Fetch_jacket], items)
                       | Some (j # js) \<Rightarrow>
                           ([Fetch_jacket],
                            items @ [\<lparr>item_id = variant_id j, quantity = 1\<rparr>]))))
          else ([Fetch_jacket], items))"

text \<open>
  \<open>handleAddToCart\<close>: the effects in order and the state when the handler has run to
  its end. The request to the cart has failed when \<open>fetch\<close> rejects or the response is
  not \<open>ok\<close>. \<open>refreshCart()\<close> is started without \<open>await\<close>; its effects are listed where
  it is started.
\<close>

definition handleAddToCart :: "network \<Rightarrow> popup_state \<Rightarrow> effect list \<times> popup_state" where
  "handleAddToCart net s =
     (case selectedVariant s of
        None \<Rightarrow> ([], s)
      | Some sv \<Rightarrow>
          (let items = [\<lparr>item_id = variant_id sv, quantity = 1\<rparr>];
               hasBlack = list_ex (\<lambda>v. trim (toLowerCase v) = ''black'') (map snd (selections s));
               hasMedium = list_ex (\<lambda>v. trim (toLowerCase v) = ''medium'') (map snd (selections s));
               (fx, items) = (if hasBlack \<and> hasMedium then fetch_jacket net items else ([], items));
               origHTML = elAtcBtn_content s;
               s = s\<lparr>elAtcBtn_disabled := True, elAtcBtn_content := Adding\<rparr>;
               res_ok = (case cart_add_response net of Network_error \<Rightarrow> False | Http ok b \<Rightarrow> ok)
           in if res_ok
              then (fx @ [Post_cart_add items] @ refreshCart net,
                    s\<lparr>elAtcBtn_content := Added,
                      timers := timers s @ [(900, Close_and_restore origHTML)]\<rparr>)
              else (fx @ [Post_cart_add items, Console_error],
                    s\<lparr>elAtcBtn_content := Error_try_again,
                      timers := timers s @ [(2000, Restore origHTML)]\<rparr>)))"


section \<open>The class \<open>ProductGridPopup\<close>\<close>

text \<open>An entry of \<open>product.options\<close> as the class reads it.\<close>

record product_option =
  name :: string

text \<open>The exception the class can raise on the inputs of the model.\<close>

datatype error = TypeError

text \<open>
  The fields of the instance and the parts of the page it writes; the elements are taken
  as present, as for the other widget.
\<close>

record class_state =
  this_currentProduct :: "product_option product option"
  this_selectedVariant :: "variant option"
  this_variantSelections :: selection_state
  popup_active :: bool
  this_popup_aria_hidden :: bool
  popupVariants :: "variant_group list"
  popupVariantId_value :: "int option"
  popupPrice_text :: string
  popupImage_src :: string
  addToCartBtn_disabled :: bool
  addToCartBtn_content :: content
  addToCartBtn_backgroundColor :: string
  this_timers :: "(nat \<times> timer) list"

definition class_closePopup :: "class_state \<Rightarrow> class_state" where
  "class_closePopup s =
     s\<lparr>popup_active := False, this_popup_aria_hidden := True, this_currentProduct := None,
       this_selectedVariant := None, this_variantSelections := []\<rparr>"

subsection \<open>\<open>formatMoney\<close> of the class\<close>

text \<open>
  \<open>formatWithDelimiters(number, precision, thousands, decimal)\<close>. The default of the
  precision is written \<open>precision || 2\<close>, which also replaces a precision of \<open>0\<close>. The
  amount is a number, so the guard \<open>isNaN(number) || number == null\<close> is false. The class
  does not pass the amount through \<open>parseInt\<close>.
\<close>

definition formatWithDelimiters :: "window \<Rightarrow> int \<Rightarrow> nat option \<Rightarrow> string option \<Rightarrow> string option \<Rightarrow> string" where
  "formatWithDelimiters w number precision thousands decimal =
     (let precision = (case precision of None \<Rightarrow> 2 | Some p \<Rightarrow> if p = 0 then 2 else p);
          thousands = or_else thousands '','';
          decimal = or_else decimal ''.'';
          number = toFixed w number precision;
          parts = split_dot number;
          dollarsAmount = insert_thousands thousands (parts ! 0);
          centsAmount = (case part parts 1 of
                           None \<Rightarrow> []
                         | Some p1 \<Rightarrow> if p1 = [] then [] else decimal @ p1)
      in dollarsAmount @ centsAmount)"

text \<open>
  \<open>formatString.match(placeholderRegex)[1]\<close> reads a property of \<open>null\<close> when the
  template has no placeholder: a \<open>TypeError\<close>.
\<close>

definition class_formatMoney :: "window \<Rightarrow> int \<Rightarrow> error + string" where
  "class_formatMoney w cents =
     (let formatString = or_else (theme_moneyFormat w) ''${{amount}}''
      in case find_placeholder formatString of
           None \<Rightarrow> Inl TypeError
         | Some (before, key, rest) \<Rightarrow>
             (let v = (if key = ''amount'' then formatWithDelimiters w cents (Some 2) None None
                       else if key = ''amount_no_decimals''
                         then formatWithDelimiters w cents (Some 0) None None
                       else if key = ''amount_with_comma_separator''
                         then formatWithDelimiters w cents (Some 2) (Some ''.'') (Some '','')
                       else if key = ''amount_no_decimals_with_comma_separator''
                         then formatWithDelimiters w cents (Some 0) (Some ''.'') (Some '','')
                       else if key = ''amount_no_decimals_with_space_separator''
                         then formatWithDelimiters w cents (Some 0) (Some '' '') None
                       else formatWithDelimiters w cents (Some 2) None None)
              in Inr (replace_placeholder formatString v)))"

subsection \<open>\<open>renderVariants\<close>\<close>

definition getOptionValues :: "product_option product \<Rightarrow> nat \<Rightarrow> string list" where
  "getOptionValues product position =
     foldl (\<lambda>values variant.
              case option_at variant position of
                None \<Rightarrow> values
              | Some v \<Rightarrow> if v \<noteq> [] \<and> v \<notin> set values then values @ [v] else values)
           [] (variants product)"

text \<open>
  The body of \<open>optionNames.forEach\<close>, from \<open>index\<close> on. The dropdown is chosen for every
  option whose lower-cased name contains \<open>size\<close>.
\<close>

fun class_render_options :: "product_option product \<Rightarrow> nat \<Rightarrow> string list \<Rightarrow> selection_state \<Rightarrow> variant_group list \<times> selection_state" where
  "class_render_options product index [] sel = ([], sel)"
| "class_render_options product index (optionName # rest) sel =
     (let optionPosition = index + 1;
          optionValues = getOptionValues product optionPosition
      in if optionValues = [] then class_render_options product (index + 1) rest sel
         else (let (c, sel1) =
                     (if includes_str (toLowerCase optionName) ''size''
                      then (case optionValues of
                              [] \<Rightarrow> (Select (''Choose your '' @ toLowerCase optionName) optionValues [], sel)
                            | v # vs \<Rightarrow>
                                (Select (''Choose your '' @ toLowerCase optionName) optionValues v,
                                 AList.update optionName v sel))
                      else (case optionValues of
                              [] \<Rightarrow> (Buttons optionValues None, sel)
                            | v # vs \<Rightarrow> (Buttons optionValues (Some 0), AList.update optionName v sel)));
                   (groups, sel2) = class_render_options product (index + 1) rest sel1
               in (\<lparr>label = optionName, control = c\<rparr> # groups, sel2)))"

definition renderVariants :: "product_option product \<Rightarrow> class_state \<Rightarrow> class_state" where
  "renderVariants product s =
     (if length (options product) = 0
         \<or> (length (options product) = 1 \<and> name (options product ! 0) = ''Title'')
      then s\<lparr>popupVariants := []\<rparr>
      else (let optionNames = map name (options product);
                (groups, sel) = class_render_options product 0 optionNames (this_variantSelections s)
            in s\<lparr>popupVariants := groups, this_variantSelections := sel\<rparr>))"

subsection \<open>\<open>updateSelectedVariant\<close>\<close>

definition class_match_variant :: "product_option product \<Rightarrow> selection_state \<Rightarrow> variant option" where
  "class_match_variant product sel =
     find (\<lambda>v. list_all (\<lambda>optionName.
                   case findIndex (\<lambda>opt. name opt = optionName) (options product) of
                     None \<Rightarrow> True
                   | Some optionIndex \<Rightarrow> option_at v (optionIndex + 1) = map_of sel optionName)
                 (map fst sel))
          (variants product)"

text \<open>
  The method returns the state it leaves and the exception it ends with, if any: the
  selected variant and the variant id are written before the price is formatted.
\<close>

definition updateSelectedVariant :: "window \<Rightarrow> class_state \<Rightarrow> error option \<times> class_state" where
  "updateSelectedVariant w s =
     (case this_currentProduct s of
        None \<Rightarrow> (None, s)
      | Some product \<Rightarrow>
          (case class_match_variant product (this_variantSelections s) of
             None \<Rightarrow> (None, s)
           | Some variant \<Rightarrow>
               (let s = s\<lparr>this_selectedVariant := Some variant,
                          popupVariantId_value := Some (variant_id variant)\<rparr>
                in case class_formatMoney w (price variant) of
                     Inl e \<Rightarrow> (Some e, s)
                   | Inr text \<Rightarrow>
                       (None,
                        s\<lparr>popupPrice_text := text,
                          popupImage_src := (case featured_image variant of
                                               None \<Rightarrow> popupImage_src s
                                             | Some src \<Rightarrow> src)\<rparr>))))"

subsection \<open>\<open>handleAddToCart\<close> of the class\<close>

definition updateCartCount :: "window \<Rightarrow> network \<Rightarrow> effect list" where
  "updateCartCount w net =
     Fetch_cart #
     (case cart_response net of
        Network_error \<Rightarrow> [Console_error]
      | Http ok Invalid_json \<Rightarrow> [Console_error]
      | Http ok (Json c) \<Rightarrow>
          [Set_cart_count (item_count c)]
          @ (if theme_CartDrawer w then [CartDrawer_update] else [])
          @ [Dispatch_event ''cart:updated'' c])"

definition class_run_timer :: "timer \<Rightarrow> class_state \<Rightarrow> class_state" where
  "class_run_timer t s =
     (case t of
        Close_and_restore originalText \<Rightarrow>
          (class_closePopup s)\<lparr>addToCartBtn_content := originalText,
                               addToCartBtn_backgroundColor := [],
                               addToCartBtn_disabled := False\<rparr>
      | Restore originalText \<Rightarrow>
          s\<lparr>addToCartBtn_content := originalText, addToCartBtn_disabled := False\<rparr>)"

text \<open>
  The inner \<open>try\<close> block of the class. Reading \<open>variants.length\<close> of a bundle product
  without \<open>variants\<close> is a \<open>TypeError\<close> that the inner \<open>catch\<close> logs.
\<close>

definition class_fetch_jacket :: "network \<Rightarrow> item list \<Rightarrow> effect list \<times> item list" where
  "class_fetch_jacket net items =
     (case jacket_response net of
        Network_error \<Rightarrow> ([Fetch_jacket, Console_warn], items)
      | Http ok b \<Rightarrow>
          if ok then
            (case b of
               Invalid_json \<Rightarrow> ([Fetch_jacket, Console_warn], items)
             | Json jacketProduct \<Rightarrow>
                 (case jacketProduct of
                    Json_null \<Rightarrow> ([Fetch_jacket], items)
                  | Json_product jacket_variants \<Rightarrow>
                      (case jacket_variants of
                         None \<Rightarrow> ([Fetch_jacket, Console_warn], items)
                       | Some [] \<Rightarrow> ([Fetch_jacket], items)
                       | Some (j # js) \<Rightarrow>
                           ([Fetch_jacket],
                            items @ [\<lparr>item_id = variant_id j, quantity = 1\<rparr>]))))
          else ([Fetch_jacket], items))"

text \<open>
  In the class the whole of the work is inside one \<open>try\<close>: the request to the cart has
  failed when \<open>fetch\<close> rejects or the response is not \<open>ok\<close>, and a rejected
  \<open>response.json()\<close> is handled in the same way.
\<close>

definition class_handleAddToCart :: "window \<Rightarrow> network \<Rightarrow> class_state \<Rightarrow> effect list \<times> class_state" where
  "class_handleAddToCart w net s =
     (case this_selectedVariant s of
        None \<Rightarrow> ([Alert ''Please select a variant''], s)
      | Some sv \<Rightarrow>
          (let originalText = addToCartBtn_content s;
               s = s\<lparr>addToCartBtn_disabled := True, addToCartBtn_content := Html ''Adding...''\<rparr>;
               items = [\<lparr>item_id = variant_id sv, quantity = 1\<rparr>];
               hasBlack = list_ex (\<lambda>(key, v). trim (toLowerCase v) = ''black'') (this_variantSelections s);
               hasMedium = list_ex (\<lambda>(key, v). trim (toLowerCase v) = ''medium'') (this_variantSelections s);
               (fx, items) = (if hasBlack \<and> hasMedium then class_fetch_jacket net items
                              else ([], items));
               result_read = (case cart_add_response net of
                                Network_error \<Rightarrow> False
                              | Http ok b \<Rightarrow>
                                  ok \<and> (case b of Invalid_json \<Rightarrow> False | Json result \<Rightarrow> True))
           in if result_read
              then ([Console_log, Console_log] @ fx @ [Post_cart_add items] @ updateCartCount w net,
                    s\<lparr>addToCartBtn_content := Html ''Added!'',
                      addToCartBtn_backgroundColor := ''#4CAF50'',
                      this_timers := this_timers s @ [(1000, Close_and_restore originalText)]\<rparr>)
              else ([Console_log, Console_log] @ fx
                    @ [Post_cart_add items, Console_error,
                       Alert ''Failed to add product to cart. Please try again.''],
                    s\<lparr>addToCartBtn_content := originalText, addToCartBtn_disabled := False\<rparr>)))"


section \<open>Notions of the specification\<close>

text \<open>
  The one-based position of an option name in the ordered option list, at its first
  occurrence.
\<close>

definition position_of :: "'a list \<Rightarrow> 'a \<Rightarrow> nat" where
  "position_of xs x = Suc (length (takeWhile (\<lambda>y. y \<noteq> x) xs))"

text \<open>
  A variant satisfies a selection state when, for every option name present in the
  selection state that occurs among the option names of the product, its value at the
  position of that option equals the selected value. Names of the product that the
  selection state does not mention are not looked at.
\<close>

definition satisfies_selection :: "string list \<Rightarrow> selection_state \<Rightarrow> variant \<Rightarrow> bool" where
  "satisfies_selection opts sel v =
     (\<forall>optName \<in> set (map fst sel).
        optName \<in> set opts \<longrightarrow> option_at v (position_of opts optName) = map_of sel optName)"


text \<open>
  The bundle rule applies to a selection state whose values contain, lower-cased and
  trimmed, both \<open>black\<close> and \<open>medium\<close>, under whatever option names.
\<close>

definition bundle_selected :: "selection_state \<Rightarrow> bool" where
  "bundle_selected sel =
     ((\<exists>v \<in> set (map snd sel). trim (toLowerCase v) = ''black'')
      \<and> (\<exists>v \<in> set (map snd sel). trim (toLowerCase v) = ''medium''))"

text \<open>
  The fetch of the bundle product fails: a network error, a status that is not a
  success, a body that cannot be read, or a product without variants.
\<close>

definition jacket_fetch_fails :: "bundle_json response \<Rightarrow> bool" where
  "jacket_fetch_fails r =
     (case r of
        Network_error \<Rightarrow> True
      | Http ok b \<Rightarrow>
          \<not> ok \<or> (case b of
                    Invalid_json \<Rightarrow> True
                  | Json Json_null \<Rightarrow> True
                  | Json (Json_product None) \<Rightarrow> True
                  | Json (Json_product (Some vs)) \<Rightarrow> vs = []))"

text \<open>The request to the cart fails: it throws or returns a status that is not a success.\<close>

definition cart_add_fails :: "unit response \<Rightarrow> bool" where
  "cart_add_fails r = (case r of Network_error \<Rightarrow> True | Http ok b \<Rightarrow> \<not> ok)"

text \<open>The \<open>items\<close> lists of the requests to the cart among the effects of a handler.\<close>

fun posted_items :: "effect list \<Rightarrow> item list list" where
  "posted_items [] = []"
| "posted_items (Post_cart_add items # fx) = items # posted_items fx"
| "posted_items (e # fx) = posted_items fx"


text \<open>
  An option has a value at its position when some variant carries one there that is
  not empty; an option without any has zero distinct values across the variants.
  \<open>offered_options p names\<close> are the names, in order, of the options that have one.
\<close>

definition has_value :: "'o product \<Rightarrow> nat \<Rightarrow> bool" where
  "has_value p position =
     list_ex (\<lambda>v. case option_at v position of None \<Rightarrow> False | Some x \<Rightarrow> x \<noteq> [])
       (variants p)"

definition offered_options :: "'o product \<Rightarrow> 'n list \<Rightarrow> 'n list" where
  "offered_options p names =
     map fst (filter (\<lambda>(n, i). has_value p (Suc i)) (zip names [0..<length names]))"


text \<open>
  The product the class reads when the first widget reads \<open>p\<close>: each option name
  as an object with that name.
\<close>

definition as_objects :: "string product \<Rightarrow> product_option product" where
  "as_objects p = \<lparr>options = map (\<lambda>n. \<lparr>name = n\<rparr>) (options p), variants = variants p\<rparr>"

text \<open>
  No option name contains \<open>size\<close>, in whatever case, without being equal to it.
\<close>

definition size_by_name_only :: "string product \<Rightarrow> bool" where
  "size_by_name_only p =
     list_all (\<lambda>n. includes_str (toLowerCase n) ''size'' \<longrightarrow> toLowerCase n = ''size'') (options p)"

text \<open>
  The template the first widget reads, with its fallback to \<open>window.Theme\<close>, is the one
  the class reads.
\<close>

definition same_template :: "window \<Rightarrow> bool" where
  "same_template w =
     (or_else (theme_moneyFormat w) (or_else (Theme_moneyFormat w) ''${{amount}}'')
      = or_else (theme_moneyFormat w) ''${{amount}}'')"

text \<open>The modes of the table that render no decimals.\<close>

definition no_decimals_modes :: "string list" where
  "no_decimals_modes = [''amount_no_decimals'', ''amount_no_decimals_with_comma_separator'',
     ''amount_no_decimals_with_space_separator'']"


text \<open>
  The rendering the mode table of the specification asks for. \<open>group_thousands sep ds\<close>
  cuts the digits \<open>ds\<close> into groups of three from the right and puts \<open>sep\<close> between
  the groups. \<open>rendered num decimals thousands decimal\<close> is the amount of \<open>num\<close> minor
  units: with no decimals the whole units, rounded half away from zero, grouped; with
  two decimals the whole units grouped, the decimal mark and the two digits of the
  hundredths; a minus sign in front of a negative amount. \<open>mode_table\<close> gives the
  decimals, the thousands separator and the decimal mark of each mode, those of
  \<open>amount\<close> for a mode it does not list.
\<close>

function group_thousands :: "string \<Rightarrow> string \<Rightarrow> string" where
  "group_thousands sep ds =
     (if length ds \<le> 3 then ds
      else group_thousands sep (take (length ds - 3) ds) @ sep @ drop (length ds - 3) ds)"
  by pat_completeness auto
termination
  by (relation "measure (\<lambda>(sep, ds). length ds)") auto

declare group_thousands.simps [simp del]

definition two_digits :: "nat \<Rightarrow> string" where
  "two_digits n = [digit_char (n div 10 mod 10), digit_char (n mod 10)]"

definition rendered :: "int \<Rightarrow> nat \<Rightarrow> string \<Rightarrow> string \<Rightarrow> string" where
  "rendered num decimals thousands decimal =
     (let a = nat \<bar>num\<bar>;
          sign = (if num < 0 then ''-'' else [])
      in if decimals = 0 then sign @ group_thousands thousands (show_nat ((a + 50) div 100))
         else sign @ group_thousands thousands (show_nat (a div 100)) @ decimal @ two_digits a)"

definition mode_table :: "string \<Rightarrow> nat \<times> string \<times> string" where
  "mode_table key =
     (if key = ''amount'' then (2, '','', ''.'')
      else if key = ''amount_no_decimals'' then (0, '','', ''.'')
      else if key = ''amount_with_comma_separator'' then (2, ''.'', '','')
      else if key = ''amount_no_decimals_with_comma_separator'' then (0, ''.'', '','')
      else if key = ''amount_no_decimals_with_space_separator'' then (0, '' '', ''.'')
      else (2, '','', ''.''))"


section \<open>Example inputs\<close>

definition red_small :: variant where
  "red_small = \<lparr>variant_id = 101, price = 1000, option1 = Some ''Red'',
     option2 = Some ''Small'', option3 = None, featured_image = None\<rparr>"

definition black_small :: variant where
  "black_small = \<lparr>variant_id = 102, price = 1200, option1 = Some ''Black'',
     option2 = Some ''Small'', option3 = None, featured_image = None\<rparr>"

definition black_medium :: variant where
  "black_medium = \<lparr>variant_id = 103, price = 1500, option1 = Some ''Black'',
     option2 = Some ''Medium'', option3 = None, featured_image = Some ''black-medium.png''\<rparr>"

definition shirt :: "string product" where
  "shirt = \<lparr>options = [''Color'', ''Size''], variants = [red_small, black_small, black_medium]\<rparr>"

definition shirt_objects :: "product_option product" where
  "shirt_objects = \<lparr>options = [\<lparr>name = ''Color''\<rparr>, \<lparr>name = ''Size''\<rparr>],
     variants = [red_small, black_small, black_medium]\<rparr>"

text \<open>
  A page without a money format of its own. The amounts of the examples are all safe,
  and what the engine of this page answers beyond them is left open.
\<close>

definition page :: window where
  "page = \<lparr>theme_moneyFormat = None, Theme_moneyFormat = None, theme_CartDrawer = False,
     parseInt_beyond = (\<lambda>n. undefined), toFixed_beyond = (\<lambda>n p. undefined)\<rparr>"

definition shown :: popup_state where
  "shown = \<lparr>currentProduct = Some shirt, selectedVariant = Some red_small,
     selections = [(''Color'', ''Red''), (''Size'', ''Small'')], popup_aria_hidden = False,
     elVariants = [], elVarId_value = Some 101, elPrice_text = ''$10.00'',
     elImg_src = ''shirt.png'', elAtcBtn_disabled = False,
     elAtcBtn_content = Html ''Add to cart'', timers = []\<rparr>"

definition class_shown :: class_state where
  "class_shown = \<lparr>this_currentProduct = Some shirt_objects, this_selectedVariant = Some red_small,
     this_variantSelections = [(''Color'', ''Red''), (''Size'', ''Small'')], popup_active = True,
     this_popup_aria_hidden = False, popupVariants = [], popupVariantId_value = Some 101,
     popupPrice_text = ''$10.00'', popupImage_src = ''shirt.png'',
     addToCartBtn_disabled = False, addToCartBtn_content = Html ''Add to cart'',
     addToCartBtn_backgroundColor = [], this_timers = []\<rparr>"


definition soft_winter_jacket :: variant where
  "soft_winter_jacket = \<lparr>variant_id = 900, price = 9900, option1 = Some ''Default Title'',
     option2 = None, option3 = None, featured_image = None\<rparr>"

definition online :: network where
  "online = \<lparr>jacket_response = Http True (Json (Json_product (Some [soft_winter_jacket]))),
     cart_add_response = Http True (Json ()),
     cart_response = Http True (Json \<lparr>item_count = 2\<rparr>)\<rparr>"

definition black_medium_shown :: popup_state where
  "black_medium_shown = shown\<lparr>selectedVariant := Some black_medium,
     selections := [(''Color'', '' BLACK''), (''Size'', ''Medium '')]\<rparr>"

definition class_black_medium_shown :: class_state where
  "class_black_medium_shown = class_shown\<lparr>this_selectedVariant := Some black_medium,
     this_variantSelections := [(''Color'', '' BLACK''), (''Size'', ''Medium '')]\<rparr>"


definition default_variant :: variant where
  "default_variant = \<lparr>variant_id = 500, price = 2500, option1 = Some ''Default Title'',
     option2 = None, option3 = None, featured_image = None\<rparr>"

definition plain :: "string product" where
  "plain = \<lparr>options = [''Title''], variants = [default_variant]\<rparr>"

definition plain_objects :: "product_option product" where
  "plain_objects = \<lparr>options = [\<lparr>name = ''Title''\<rparr>], variants = [default_variant]\<rparr>"

definition shirt_material :: "string product" where
  "shirt_material = \<lparr>options = [''Color'', ''Material'', ''Size''],
     variants = [red_small\<lparr>option2 := None, option3 := Some ''Small''\<rparr>,
                 black_medium\<lparr>option2 := Some [], option3 := Some ''Medium''\<rparr>]\<rparr>"

definition shirt_material_objects :: "product_option product" where
  "shirt_material_objects = \<lparr>options = [\<lparr>name = ''Color''\<rparr>, \<lparr>name = ''Material''\<rparr>, \<lparr>name = ''Size''\<rparr>],
     variants = variants shirt_material\<rparr>"


definition shoe :: "string product" where
  "shoe = \<lparr>options = [''Shoe Size''],
     variants = [\<lparr>variant_id = 700, price = 8000, option1 = Some ''42'', option2 = None,
                  option3 = None, featured_image = None\<rparr>]\<rparr>"

definition with_format :: "string \<Rightarrow> window" where
  "with_format fmt = page\<lparr>theme_moneyFormat := Some fmt\<rparr>"


section \<open>Properties of variant resolution\<close>

lemma indexOf_None: "indexOf xs x = None \<longleftrightarrow> x \<notin> set xs"
  by (induction xs) auto

lemma indexOf_Some: "indexOf xs x = Some i \<Longrightarrow> x \<in> set xs \<and> Suc i = position_of xs x"
  by (induction xs arbitrary: i) (auto simp: position_of_def split: if_splits)

lemma findIndex_name: "findIndex (\<lambda>opt. name opt = n) os = indexOf (map name os) n"
  by (induction os) auto

lemma constraint_iff:
  "(case indexOf opts n of None \<Rightarrow> True | Some idx \<Rightarrow> option_at v (idx + 1) = m)
   \<longleftrightarrow> (n \<in> set opts \<longrightarrow> option_at v (position_of opts n) = m)"
proof (cases "indexOf opts n")
  case None
  then show ?thesis using indexOf_None [of opts n] by simp
next
  case (Some idx)
  from indexOf_Some [OF this] show ?thesis using Some by simp
qed

lemma callback_iff:
  "list_all (\<lambda>optName. case indexOf opts optName of None \<Rightarrow> True
                | Some idx \<Rightarrow> option_at v (idx + 1) = map_of sel optName) (map fst sel)
   = satisfies_selection opts sel v"
  unfolding satisfies_selection_def list_all_iff constraint_iff ..

lemma match_variant_find:
  "match_variant p sel = find (satisfies_selection (options p) sel) (variants p)"
  unfolding match_variant_def callback_iff ..

lemma class_match_variant_find:
  "class_match_variant q sel = find (satisfies_selection (map name (options q)) sel) (variants q)"
  unfolding class_match_variant_def findIndex_name callback_iff ..

lemma satisfies_update:
  "k \<notin> set opts \<Longrightarrow>
   satisfies_selection opts (AList.update k x sel) = satisfies_selection opts sel"
  unfolding satisfies_selection_def set_map dom_update update_conv' by (rule ext) auto

lemma satisfies_delete:
  "k \<notin> set opts \<Longrightarrow>
   satisfies_selection opts (AList.delete k sel) = satisfies_selection opts sel"
  unfolding satisfies_selection_def delete_keys delete_conv' by (rule ext) auto

lemma resolveVariant_selected:
  "currentProduct s = Some p \<Longrightarrow>
   selectedVariant (resolveVariant w s) =
     (case match_variant p (selections s) of None \<Rightarrow> selectedVariant s | Some v \<Rightarrow> Some v)"
  by (simp add: resolveVariant_def split: option.splits)

lemma updateSelectedVariant_selected:
  "this_currentProduct c = Some q \<Longrightarrow>
   this_selectedVariant (snd (updateSelectedVariant w c)) =
     (case class_match_variant q (this_variantSelections c) of
        None \<Rightarrow> this_selectedVariant c | Some v \<Rightarrow> Some v)"
  by (simp add: updateSelectedVariant_def Let_def split: option.splits sum.splits)

text \<open>
  C3. The resolver of either implementation returns the first variant, in the order of
  the product's variant list, that satisfies the selection state: the variant at an
  index \<open>i\<close> that satisfies it while no variant at a smaller index does. Only the option
  names present in the selection state constrain the variant, so an option of the
  product that has no entry yet is a wildcard. The variant found becomes the selected
  variant.
\<close>

theorem resolver_first_match:
  "(match_variant p sel = Some v \<longleftrightarrow>
      (\<exists>i<length (variants p). variants p ! i = v
          \<and> satisfies_selection (options p) sel v
          \<and> (\<forall>j<i. \<not> satisfies_selection (options p) sel (variants p ! j))))
   \<and> (class_match_variant q sel = Some v \<longleftrightarrow>
      (\<exists>i<length (variants q). variants q ! i = v
          \<and> satisfies_selection (map name (options q)) sel v
          \<and> (\<forall>j<i. \<not> satisfies_selection (map name (options q)) sel (variants q ! j))))
   \<and> (currentProduct s = Some p \<and> match_variant p (selections s) = Some v
        \<longrightarrow> selectedVariant (resolveVariant w s) = Some v)
   \<and> (this_currentProduct c = Some q \<and> class_match_variant q (this_variantSelections c) = Some v
        \<longrightarrow> this_selectedVariant (snd (updateSelectedVariant w c)) = Some v)"
proof -
  have a: "match_variant p sel = Some v \<longleftrightarrow>
      (\<exists>i<length (variants p). variants p ! i = v
          \<and> satisfies_selection (options p) sel v
          \<and> (\<forall>j<i. \<not> satisfies_selection (options p) sel (variants p ! j)))"
    unfolding match_variant_find find_Some_iff by auto
  have b: "class_match_variant q sel = Some v \<longleftrightarrow>
      (\<exists>i<length (variants q). variants q ! i = v
          \<and> satisfies_selection (map name (options q)) sel v
          \<and> (\<forall>j<i. \<not> satisfies_selection (map name (options q)) sel (variants q ! j)))"
    unfolding class_match_variant_find find_Some_iff by auto
  show ?thesis
    using a b by (simp add: resolveVariant_selected updateSelectedVariant_selected)
qed

theorem resolver_first_match_witness:
  "match_variant shirt [(''Color'', ''Black'')] = Some black_small
   \<and> class_match_variant shirt_objects [(''Color'', ''Black'')] = Some black_small
   \<and> selectedVariant (resolveVariant page (shown\<lparr>selections := [(''Color'', ''Black'')]\<rparr>))
       = Some black_small
   \<and> this_selectedVariant
       (snd (updateSelectedVariant page
              (class_shown\<lparr>this_variantSelections := [(''Color'', ''Black'')]\<rparr>)))
       = Some black_small"
proof -
  let ?sel = "[(''Color'', ''Black'')]"
  have sat: "satisfies_selection [''Color'', ''Size''] ?sel black_small"
     and unsat: "\<not> satisfies_selection [''Color'', ''Size''] ?sel red_small"
    by (simp_all add: satisfies_selection_def position_of_def option_at_def
          black_small_def red_small_def)
  have p: "\<exists>i<length (variants shirt). variants shirt ! i = black_small
          \<and> satisfies_selection (options shirt) ?sel black_small
          \<and> (\<forall>j<i. \<not> satisfies_selection (options shirt) ?sel (variants shirt ! j))"
    using sat unsat by (intro exI [of _ 1]) (simp add: shirt_def)
  have q: "\<exists>i<length (variants shirt_objects). variants shirt_objects ! i = black_small
          \<and> satisfies_selection (map name (options shirt_objects)) ?sel black_small
          \<and> (\<forall>j<i. \<not> satisfies_selection (map name (options shirt_objects)) ?sel
                       (variants shirt_objects ! j))"
    using sat unsat by (intro exI [of _ 1]) (simp add: shirt_objects_def)
  note t = resolver_first_match [of shirt ?sel black_small shirt_objects
      "shown\<lparr>selections := ?sel\<rparr>" page "class_shown\<lparr>this_variantSelections := ?sel\<rparr>"]
  from t p q show ?thesis by (simp add: shown_def class_shown_def)
qed

text \<open>
  C9. When no variant of the product satisfies the selection state, running the resolver
  again changes nothing: the selected variant, the hidden variant id and the displayed
  price stay what they were, in both implementations. In every case the selected variant
  after the resolver is the one before it or a whole variant of the current product,
  never an unset or partial value.
\<close>

theorem no_match_keeps_selected_variant:
  "(currentProduct s = Some p
      \<and> (\<forall>v \<in> set (variants p). \<not> satisfies_selection (options p) (selections s) v)
     \<longrightarrow> resolveVariant w s = s)
   \<and> (this_currentProduct c = Some q
      \<and> (\<forall>v \<in> set (variants q).
            \<not> satisfies_selection (map name (options q)) (this_variantSelections c) v)
     \<longrightarrow> updateSelectedVariant w c = (None, c))
   \<and> (selectedVariant (resolveVariant w s) = selectedVariant s
      \<or> (\<exists>p v. currentProduct s = Some p \<and> v \<in> set (variants p)
            \<and> selectedVariant (resolveVariant w s) = Some v))
   \<and> (this_selectedVariant (snd (updateSelectedVariant w c)) = this_selectedVariant c
      \<or> (\<exists>q v. this_currentProduct c = Some q \<and> v \<in> set (variants q)
            \<and> this_selectedVariant (snd (updateSelectedVariant w c)) = Some v))"
proof (intro conjI impI)
  assume "currentProduct s = Some p
      \<and> (\<forall>v \<in> set (variants p). \<not> satisfies_selection (options p) (selections s) v)"
  then have "currentProduct s = Some p" and "match_variant p (selections s) = None"
    by (simp_all add: match_variant_find find_None_iff)
  then show "resolveVariant w s = s" by (simp add: resolveVariant_def)
next
  assume "this_currentProduct c = Some q
      \<and> (\<forall>v \<in> set (variants q).
            \<not> satisfies_selection (map name (options q)) (this_variantSelections c) v)"
  then have "this_currentProduct c = Some q"
    and "class_match_variant q (this_variantSelections c) = None"
    by (simp_all add: class_match_variant_find find_None_iff)
  then show "updateSelectedVariant w c = (None, c)" by (simp add: updateSelectedVariant_def)
next
  show "selectedVariant (resolveVariant w s) = selectedVariant s
      \<or> (\<exists>p v. currentProduct s = Some p \<and> v \<in> set (variants p)
            \<and> selectedVariant (resolveVariant w s) = Some v)"
  proof (cases "currentProduct s")
    case None
    then show ?thesis by (simp add: resolveVariant_def)
  next
    case (Some p)
    show ?thesis
    proof (cases "match_variant p (selections s)")
      case None
      with Some show ?thesis by (simp add: resolveVariant_selected)
    next
      case (Some v)
      then have "v \<in> set (variants p)"
        unfolding match_variant_find find_Some_iff by auto
      with Some \<open>currentProduct s = Some p\<close> show ?thesis
        by (simp add: resolveVariant_selected)
    qed
  qed
next
  show "this_selectedVariant (snd (updateSelectedVariant w c)) = this_selectedVariant c
      \<or> (\<exists>q v. this_currentProduct c = Some q \<and> v \<in> set (variants q)
            \<and> this_selectedVariant (snd (updateSelectedVariant w c)) = Some v)"
  proof (cases "this_currentProduct c")
    case None
    then show ?thesis by (simp add: updateSelectedVariant_def)
  next
    case (Some q)
    show ?thesis
    proof (cases "class_match_variant q (this_variantSelections c)")
      case None
      with Some show ?thesis by (simp add: updateSelectedVariant_selected)
    next
      case (Some v)
      then have "v \<in> set (variants q)"
        unfolding class_match_variant_find find_Some_iff by auto
      with Some \<open>this_currentProduct c = Some q\<close> show ?thesis
        by (simp add: updateSelectedVariant_selected)
    qed
  qed
qed

theorem no_match_keeps_selected_variant_witness:
  "resolveVariant page (shown\<lparr>selections := [(''Color'', ''Red''), (''Size'', ''Medium'')]\<rparr>)
     = shown\<lparr>selections := [(''Color'', ''Red''), (''Size'', ''Medium'')]\<rparr>
   \<and> updateSelectedVariant page
       (class_shown\<lparr>this_variantSelections := [(''Color'', ''Red''), (''Size'', ''Medium'')]\<rparr>)
     = (None, class_shown\<lparr>this_variantSelections := [(''Color'', ''Red''), (''Size'', ''Medium'')]\<rparr>)"
proof -
  let ?sel = "[(''Color'', ''Red''), (''Size'', ''Medium'')]"
  have n: "\<forall>v \<in> set [red_small, black_small, black_medium].
             \<not> satisfies_selection [''Color'', ''Size''] ?sel v"
    by (simp add: satisfies_selection_def position_of_def option_at_def
          black_small_def red_small_def black_medium_def)
  note t = no_match_keeps_selected_variant [where s = "shown\<lparr>selections := ?sel\<rparr>"
      and p = shirt and c = "class_shown\<lparr>this_variantSelections := ?sel\<rparr>"
      and q = shirt_objects and w = page]
  from t n show ?thesis by (simp add: shown_def class_shown_def shirt_def shirt_objects_def)
qed

text \<open>
  C10. An entry of the selection state whose option name does not occur among the
  options of the product does not constrain the resolver: writing such an entry
  (adding it or changing its value) and removing it leave the variant returned
  unchanged, in both implementations.
\<close>

theorem foreign_entry_not_constraining:
  "(k \<notin> set (options p) \<longrightarrow>
      match_variant p (AList.update k x sel) = match_variant p sel
      \<and> match_variant p (AList.delete k sel) = match_variant p sel)
   \<and> (k \<notin> set (map name (options q)) \<longrightarrow>
      class_match_variant q (AList.update k x sel) = class_match_variant q sel
      \<and> class_match_variant q (AList.delete k sel) = class_match_variant q sel)"
  by (simp add: match_variant_find class_match_variant_find satisfies_update satisfies_delete
        del: set_map)

theorem foreign_entry_not_constraining_witness:
  "match_variant shirt [(''Color'', ''Black''), (''Material'', ''Wool'')]
     = match_variant shirt [(''Color'', ''Black'')]
   \<and> class_match_variant shirt_objects [(''Color'', ''Black''), (''Material'', ''Wool'')]
     = class_match_variant shirt_objects [(''Color'', ''Black'')]"
  using foreign_entry_not_constraining
    [where k = "''Material''" and p = shirt and x = "''Wool''"
       and sel = "[(''Color'', ''Black'')]" and q = shirt_objects]
  by (simp add: shirt_def shirt_objects_def)

section \<open>Properties of the add-to-cart handlers\<close>

lemma posted_items_append: "posted_items (xs @ ys) = posted_items xs @ posted_items ys"
  by (induction xs rule: posted_items.induct) auto

lemma posted_items_refreshCart: "posted_items (refreshCart net) = []"
  by (simp add: refreshCart_def split: response.splits body.splits)

lemma posted_items_updateCartCount: "posted_items (updateCartCount w net) = []"
  by (simp add: updateCartCount_def split: response.splits body.splits)

lemma hasBlack_iff:
  "(list_ex (\<lambda>v. trim (toLowerCase v) = ''black'') (map snd sel)
     \<and> list_ex (\<lambda>v. trim (toLowerCase v) = ''medium'') (map snd sel)) = bundle_selected sel"
  by (simp add: bundle_selected_def list_ex_iff)

lemma list_ex_entries: "list_ex (\<lambda>(key, v). P v) sel = list_ex P (map snd sel)"
  by (induction sel) auto

lemma class_hasBlack_iff:
  "(list_ex (\<lambda>(key, v). trim (toLowerCase v) = ''black'') sel
     \<and> list_ex (\<lambda>(key, v). trim (toLowerCase v) = ''medium'') sel) = bundle_selected sel"
  unfolding list_ex_entries by (rule hasBlack_iff)

lemma fetch_jacket_effects:
  "set (fst (fetch_jacket net items)) \<subseteq> {Fetch_jacket, Console_warn}"
  "set (fst (class_fetch_jacket net items)) \<subseteq> {Fetch_jacket, Console_warn}"
  by (auto simp: fetch_jacket_def class_fetch_jacket_def
        split: response.splits body.splits bundle_json.splits option.splits list.splits)

lemma posted_items_none: "set fx \<subseteq> {Fetch_jacket, Console_warn} \<Longrightarrow> posted_items fx = []"
  by (induction fx rule: posted_items.induct) auto

lemma fetch_jacket_same_items:
  "snd (class_fetch_jacket net items) = snd (fetch_jacket net items)"
  by (auto simp: fetch_jacket_def class_fetch_jacket_def
        split: response.splits body.splits bundle_json.splits option.splits list.splits)

lemma fetch_jacket_success:
  "jacket_response net = Http True (Json (Json_product (Some (j # js)))) \<Longrightarrow>
   snd (fetch_jacket net items) = items @ [\<lparr>item_id = variant_id j, quantity = 1\<rparr>]"
  by (simp add: fetch_jacket_def)

lemma fetch_jacket_failure:
  "jacket_fetch_fails (jacket_response net) \<Longrightarrow> snd (fetch_jacket net items) = items"
  by (auto simp: fetch_jacket_def jacket_fetch_fails_def
        split: response.splits body.splits bundle_json.splits option.splits list.splits)

lemma handleAddToCart_posted:
  "selectedVariant s = Some sv \<Longrightarrow>
   posted_items (fst (handleAddToCart net s)) =
     [if bundle_selected (selections s)
      then snd (fetch_jacket net [\<lparr>item_id = variant_id sv, quantity = 1\<rparr>])
      else [\<lparr>item_id = variant_id sv, quantity = 1\<rparr>] ]"
  unfolding handleAddToCart_def hasBlack_iff Let_def
  by (simp add: posted_items_append posted_items_refreshCart
        posted_items_none [OF fetch_jacket_effects(1)] split_beta)

lemma class_handleAddToCart_posted:
  "this_selectedVariant c = Some sv \<Longrightarrow>
   posted_items (fst (class_handleAddToCart w net c)) =
     [if bundle_selected (this_variantSelections c)
      then snd (fetch_jacket net [\<lparr>item_id = variant_id sv, quantity = 1\<rparr>])
      else [\<lparr>item_id = variant_id sv, quantity = 1\<rparr>] ]"
  unfolding class_handleAddToCart_def Let_def
  by (simp add: class_hasBlack_iff posted_items_append posted_items_updateCartCount
        posted_items_none [OF fetch_jacket_effects(2)] split_beta fetch_jacket_same_items)

text \<open>
  C2. With a selected variant, a selection state to which the bundle rule applies and a
  fetch of the bundle product that succeeds with at least one variant, either handler
  sends one request to the cart whose items are exactly the selected variant and the
  first variant of the bundle product, each with quantity 1, in this order. When the
  bundle rule does not apply the request has exactly the one item of the selected
  variant.
\<close>

theorem bundle_rule_items:
  "(selectedVariant s = Some sv \<and> bundle_selected (selections s)
      \<and> jacket_response net = Http True (Json (Json_product (Some (j # js))))
     \<longrightarrow> posted_items (fst (handleAddToCart net s))
          = [ [\<lparr>item_id = variant_id sv, quantity = 1\<rparr>, \<lparr>item_id = variant_id j, quantity = 1\<rparr>] ])
   \<and> (selectedVariant s = Some sv \<and> \<not> bundle_selected (selections s)
     \<longrightarrow> posted_items (fst (handleAddToCart net s)) = [ [\<lparr>item_id = variant_id sv, quantity = 1\<rparr>] ])
   \<and> (this_selectedVariant c = Some sv \<and> bundle_selected (this_variantSelections c)
      \<and> jacket_response net = Http True (Json (Json_product (Some (j # js))))
     \<longrightarrow> posted_items (fst (class_handleAddToCart w net c))
          = [ [\<lparr>item_id = variant_id sv, quantity = 1\<rparr>, \<lparr>item_id = variant_id j, quantity = 1\<rparr>] ])
   \<and> (this_selectedVariant c = Some sv \<and> \<not> bundle_selected (this_variantSelections c)
     \<longrightarrow> posted_items (fst (class_handleAddToCart w net c))
          = [ [\<lparr>item_id = variant_id sv, quantity = 1\<rparr>] ])"
  by (simp add: handleAddToCart_posted class_handleAddToCart_posted fetch_jacket_success)

lemma bundle_selected_example: "bundle_selected [(''Color'', '' BLACK''), (''Size'', ''Medium '')]"
  by code_simp

lemma not_bundle_selected_example: "\<not> bundle_selected [(''Color'', ''Red''), (''Size'', ''Small'')]"
  by code_simp

theorem bundle_rule_items_witness:
  "posted_items (fst (handleAddToCart online black_medium_shown))
     = [ [\<lparr>item_id = 103, quantity = 1\<rparr>, \<lparr>item_id = 900, quantity = 1\<rparr>] ]
   \<and> posted_items (fst (handleAddToCart online shown)) = [ [\<lparr>item_id = 101, quantity = 1\<rparr>] ]
   \<and> posted_items (fst (class_handleAddToCart page online class_black_medium_shown))
     = [ [\<lparr>item_id = 103, quantity = 1\<rparr>, \<lparr>item_id = 900, quantity = 1\<rparr>] ]
   \<and> posted_items (fst (class_handleAddToCart page online class_shown))
     = [ [\<lparr>item_id = 101, quantity = 1\<rparr>] ]"
proof -
  note a = bundle_rule_items [where s = black_medium_shown and sv = black_medium
      and net = online and j = soft_winter_jacket and js = "[]"
      and c = class_black_medium_shown and w = page]
  note b = bundle_rule_items [where s = shown and sv = red_small and net = online
      and c = class_shown and w = page]
  from a b bundle_selected_example not_bundle_selected_example show ?thesis
    by (simp add: black_medium_shown_def class_black_medium_shown_def shown_def class_shown_def
          online_def black_medium_def red_small_def soft_winter_jacket_def)
qed

text \<open>
  C6. When the bundle rule applies but the fetch of the bundle product fails, either
  handler still sends the request to the cart, with exactly the one item of the selected
  variant.
\<close>

theorem bundle_failure_not_propagated:
  "(selectedVariant s = Some sv \<and> bundle_selected (selections s)
      \<and> jacket_fetch_fails (jacket_response net)
     \<longrightarrow> posted_items (fst (handleAddToCart net s)) = [ [\<lparr>item_id = variant_id sv, quantity = 1\<rparr>] ])
   \<and> (this_selectedVariant c = Some sv \<and> bundle_selected (this_variantSelections c)
      \<and> jacket_fetch_fails (jacket_response net)
     \<longrightarrow> posted_items (fst (class_handleAddToCart w net c))
          = [ [\<lparr>item_id = variant_id sv, quantity = 1\<rparr>] ])"
  by (simp add: handleAddToCart_posted class_handleAddToCart_posted fetch_jacket_failure)

theorem bundle_failure_not_propagated_witness:
  "posted_items (fst (handleAddToCart (online\<lparr>jacket_response := Http False Invalid_json\<rparr>)
                       black_medium_shown))
     = [ [\<lparr>item_id = 103, quantity = 1\<rparr>] ]
   \<and> posted_items (fst (class_handleAddToCart page (online\<lparr>jacket_response := Network_error\<rparr>)
                       class_black_medium_shown))
     = [ [\<lparr>item_id = 103, quantity = 1\<rparr>] ]"
proof -
  note a = bundle_failure_not_propagated [where s = black_medium_shown and sv = black_medium
      and net = "online\<lparr>jacket_response := Http False Invalid_json\<rparr>"]
  note b = bundle_failure_not_propagated [where c = class_black_medium_shown
      and sv = black_medium and net = "online\<lparr>jacket_response := Network_error\<rparr>" and w = page]
  from a b bundle_selected_example show ?thesis
    by (simp add: black_medium_shown_def class_black_medium_shown_def shown_def class_shown_def
          online_def black_medium_def jacket_fetch_fails_def)
qed


lemma not_in_fetch_jacket:
  "Fetch_cart \<notin> set (fst (fetch_jacket net items))"
  "Dispatch_event n ct \<notin> set (fst (fetch_jacket net items))"
  "Fetch_cart \<notin> set (fst (class_fetch_jacket net items))"
  "Dispatch_event n ct \<notin> set (fst (class_fetch_jacket net items))"
  using fetch_jacket_effects [of net items] by auto

text \<open>
  C7. When the request to the cart fails, the popup stays open with its product,
  selected variant and selections (\<open>closePopup\<close> is not called), the cart is not
  fetched and no event is dispatched. The first widget starts one timer of two seconds
  that puts the original content back into the submit control and enables it, and that
  does nothing else; the class restores the control at once.
\<close>

theorem failed_cart_add_keeps_popup:
  "(selectedVariant s = Some sv \<and> cart_add_fails (cart_add_response net) \<longrightarrow>
      (let (fx, s') = handleAddToCart net s
       in popup_aria_hidden s' = popup_aria_hidden s \<and> currentProduct s' = currentProduct s
          \<and> selectedVariant s' = selectedVariant s \<and> selections s' = selections s
          \<and> timers s' = timers s @ [(2000, Restore (elAtcBtn_content s))]
          \<and> run_timer (Restore (elAtcBtn_content s)) s'
              = s'\<lparr>elAtcBtn_content := elAtcBtn_content s, elAtcBtn_disabled := False\<rparr>
          \<and> Fetch_cart \<notin> set fx \<and> (\<forall>n ct. Dispatch_event n ct \<notin> set fx)))
   \<and> (this_selectedVariant c = Some sv \<and> cart_add_fails (cart_add_response net) \<longrightarrow>
      (let (fx, c') = class_handleAddToCart w net c
       in c' = c\<lparr>addToCartBtn_disabled := False\<rparr>
          \<and> Fetch_cart \<notin> set fx \<and> (\<forall>n ct. Dispatch_event n ct \<notin> set fx)))"
proof (intro conjI impI)
  assume a: "selectedVariant s = Some sv \<and> cart_add_fails (cart_add_response net)"
  then have "(case cart_add_response net of Network_error \<Rightarrow> False | Http ok b \<Rightarrow> ok) = False"
    by (simp add: cart_add_fails_def split: response.splits)
  with a show "let (fx, s') = handleAddToCart net s
       in popup_aria_hidden s' = popup_aria_hidden s \<and> currentProduct s' = currentProduct s
          \<and> selectedVariant s' = selectedVariant s \<and> selections s' = selections s
          \<and> timers s' = timers s @ [(2000, Restore (elAtcBtn_content s))]
          \<and> run_timer (Restore (elAtcBtn_content s)) s'
              = s'\<lparr>elAtcBtn_content := elAtcBtn_content s, elAtcBtn_disabled := False\<rparr>
          \<and> Fetch_cart \<notin> set fx \<and> (\<forall>n ct. Dispatch_event n ct \<notin> set fx)"
    unfolding handleAddToCart_def Let_def
    by (simp add: run_timer_def split_beta not_in_fetch_jacket)
next
  assume a: "this_selectedVariant c = Some sv \<and> cart_add_fails (cart_add_response net)"
  then have "(case cart_add_response net of Network_error \<Rightarrow> False
      | Http ok b \<Rightarrow> ok \<and> (case b of Invalid_json \<Rightarrow> False | Json result \<Rightarrow> True)) = False"
    by (simp add: cart_add_fails_def split: response.splits)
  with a show "let (fx, c') = class_handleAddToCart w net c
       in c' = c\<lparr>addToCartBtn_disabled := False\<rparr>
          \<and> Fetch_cart \<notin> set fx \<and> (\<forall>n ct. Dispatch_event n ct \<notin> set fx)"
    unfolding class_handleAddToCart_def Let_def
    by (simp add: split_beta not_in_fetch_jacket)
qed

theorem failed_cart_add_keeps_popup_witness:
  "(let (fx, s') = handleAddToCart (online\<lparr>cart_add_response := Http False Invalid_json\<rparr>) shown
    in \<not> popup_aria_hidden s' \<and> selectedVariant s' = Some red_small
       \<and> timers s' = [(2000, Restore (Html ''Add to cart''))]
       \<and> elAtcBtn_content (run_timer (Restore (Html ''Add to cart'')) s') = Html ''Add to cart''
       \<and> \<not> elAtcBtn_disabled (run_timer (Restore (Html ''Add to cart'')) s')
       \<and> Fetch_cart \<notin> set fx)
   \<and> (let (fx, c') = class_handleAddToCart page (online\<lparr>cart_add_response := Network_error\<rparr>)
                       class_shown
    in c' = class_shown \<and> Fetch_cart \<notin> set fx)"
proof -
  note a = failed_cart_add_keeps_popup [where s = shown and sv = red_small
      and net = "online\<lparr>cart_add_response := Http False Invalid_json\<rparr>"]
  note b = failed_cart_add_keeps_popup [where c = class_shown and sv = red_small
      and net = "online\<lparr>cart_add_response := Network_error\<rparr>" and w = page]
  have c: "class_shown\<lparr>addToCartBtn_disabled := False\<rparr> = class_shown"
    by (simp add: class_shown_def)
  from a b c show ?thesis
    by (simp add: shown_def class_shown_def online_def cart_add_fails_def split_beta)
qed

section \<open>Properties of variant rendering\<close>

lemma collect_values_empty:
  "foldl (\<lambda>seen v. case option_at v position of None \<Rightarrow> seen
            | Some val \<Rightarrow> if val \<noteq> [] \<and> val \<notin> set seen then seen @ [val] else seen) seen vs = []
   \<longleftrightarrow> seen = [] \<and> (\<forall>v \<in> set vs. \<forall>x. option_at v position = Some x \<longrightarrow> x = [])"
proof (induction vs arbitrary: seen)
  case Nil
  then show ?case by simp
next
  case (Cons v vs)
  show ?case
    by (cases "option_at v position") (auto simp: Cons.IH)
qed

lemma getUniqueOptionValues_empty: "getUniqueOptionValues p position = [] \<longleftrightarrow> \<not> has_value p position"
  unfolding getUniqueOptionValues_def has_value_def collect_values_empty list_ex_iff
  by (auto split: option.splits)

lemma getOptionValues_eq: "getOptionValues q position = [] \<longleftrightarrow> \<not> has_value q position"
  unfolding getOptionValues_def has_value_def collect_values_empty list_ex_iff
  by (auto split: option.splits)

lemma render_options_labels:
  "map label (fst (render_options p idx names sel))
   = map fst (filter (\<lambda>(n, i). has_value p (Suc i)) (zip names [idx..<idx + length names]))"
proof (induction names arbitrary: idx sel)
  case Nil
  then show ?case by simp
next
  case (Cons n names)
  have upt: "[idx..<idx + length (n # names)] = idx # [Suc idx..<Suc idx + length names]"
    by (subst upt_conv_Cons) simp_all
  show ?case
    unfolding upt
    by (simp add: Let_def split_beta getUniqueOptionValues_empty Cons.IH)
qed

lemma class_render_options_labels:
  "map label (fst (class_render_options q idx names sel))
   = map fst (filter (\<lambda>(n, i). has_value q (Suc i)) (zip names [idx..<idx + length names]))"
proof (induction names arbitrary: idx sel)
  case Nil
  then show ?case by simp
next
  case (Cons n names)
  have upt: "[idx..<idx + length (n # names)] = idx # [Suc idx..<Suc idx + length names]"
    by (subst upt_conv_Cons) simp_all
  show ?case
    unfolding upt
    by (simp add: Let_def split_beta getOptionValues_eq Cons.IH)
qed

text \<open>
  C8. For a product whose option list is empty or is the single placeholder option
  \<open>Title\<close>, rendering leaves the variant container empty and the selection state as
  it was: no picker is produced. For any other product the groups rendered are, in
  order, those of the options that have a value: an option with zero distinct values
  across the variants is skipped. The first widget reads the option as the name, the
  class as an object with that name.
\<close>

theorem placeholder_option_renders_nothing:
  "(options p = [] \<or> options p = [''Title'']
      \<longrightarrow> elVariants (renderVariantSelectors p s) = []
          \<and> selections (renderVariantSelectors p s) = selections s)
   \<and> (options q = [] \<or> options q = [\<lparr>name = ''Title''\<rparr>]
      \<longrightarrow> popupVariants (renderVariants q c) = []
          \<and> this_variantSelections (renderVariants q c) = this_variantSelections c)
   \<and> (\<not> (options p = [] \<or> options p = [''Title''])
      \<longrightarrow> map label (elVariants (renderVariantSelectors p s)) = offered_options p (options p))
   \<and> (\<not> (options q = [] \<or> options q = [\<lparr>name = ''Title''\<rparr>])
      \<longrightarrow> map label (popupVariants (renderVariants q c))
          = offered_options q (map name (options q)))"
proof -
  have a: "elVariants (renderVariantSelectors p s) = []
          \<and> selections (renderVariantSelectors p s) = selections s"
    if "options p = [] \<or> options p = [''Title'']"
    using that by (auto simp: renderVariantSelectors_def)
  have b: "popupVariants (renderVariants q c) = []
          \<and> this_variantSelections (renderVariants q c) = this_variantSelections c"
    if "options q = [] \<or> options q = [\<lparr>name = ''Title''\<rparr>]"
    using that by (auto simp: renderVariants_def)
  have c: "map label (elVariants (renderVariantSelectors p s)) = offered_options p (options p)"
    if "\<not> (options p = [] \<or> options p = [''Title''])"
  proof -
    from that
    have "\<not> (length (options p) = 0 \<or> (length (options p) = 1 \<and> options p ! 0 = ''Title''))"
      by (cases "options p") auto
    then have "renderVariantSelectors p s =
        (let (groups, sel) = render_options p 0 (options p) (selections s)
         in s\<lparr>elVariants := groups, selections := sel\<rparr>)"
      unfolding renderVariantSelectors_def by (rule if_not_P)
    then show ?thesis
      using render_options_labels [of p 0 "options p" "selections s"]
      by (simp add: split_beta offered_options_def)
  qed
  have d: "map label (popupVariants (renderVariants q c)) = offered_options q (map name (options q))"
    if "\<not> (options q = [] \<or> options q = [\<lparr>name = ''Title''\<rparr>])"
  proof -
    from that
    have "\<not> (length (options q) = 0
               \<or> (length (options q) = 1 \<and> name (options q ! 0) = ''Title''))"
      by (cases "options q") auto
    then have "renderVariants q c =
        (let optionNames = map name (options q);
             (groups, sel) = class_render_options q 0 optionNames (this_variantSelections c)
         in c\<lparr>popupVariants := groups, this_variantSelections := sel\<rparr>)"
      unfolding renderVariants_def by (rule if_not_P)
    then show ?thesis
      using class_render_options_labels [of q 0 "map name (options q)" "this_variantSelections c"]
      by (simp add: split_beta offered_options_def Let_def)
  qed
  from a b c d show ?thesis by blast
qed


theorem placeholder_option_renders_nothing_witness:
  "elVariants (renderVariantSelectors plain (shown\<lparr>elVariants := [\<lparr>label = ''Color'', control = Buttons [''Red''] (Some 0)\<rparr>]\<rparr>)) = []
   \<and> popupVariants (renderVariants plain_objects class_shown) = []
   \<and> map label (elVariants (renderVariantSelectors shirt_material shown)) = [''Color'', ''Size'']
   \<and> map label (popupVariants (renderVariants shirt_material_objects class_shown))
       = [''Color'', ''Size'']"
proof -
  note a = placeholder_option_renders_nothing [where p = plain and q = plain_objects
     and s = "shown\<lparr>elVariants := [\<lparr>label = ''Color'', control = Buttons [''Red''] (Some 0)\<rparr>]\<rparr>"
     and c = class_shown]
  note b = placeholder_option_renders_nothing [where p = shirt_material
     and q = shirt_material_objects and s = shown and c = class_shown]
  have v: "offered_options shirt_material (options shirt_material) = [''Color'', ''Size'']"
    "offered_options shirt_material_objects (map name (options shirt_material_objects))
       = [''Color'', ''Size'']"
    by code_simp+
  from a b v show ?thesis
    by (simp add: plain_def plain_objects_def shirt_material_def shirt_material_objects_def)
qed

section \<open>Properties of the money formatters\<close>

lemma split_dot_nonempty: "split_dot s \<noteq> []"
  by (induction s) (auto split: list.splits)

lemma is_digit_digit_char: "d < 10 \<Longrightarrow> is_digit (digit_char d)"
proof -
  assume "d < 10"
  then have "d \<in> {0, 1, 2, 3, 4, 5, 6, 7, 8, 9}" by auto
  then show ?thesis by (auto simp: is_digit_def digit_char_def)
qed

lemma show_nat_digits: "list_all is_digit (show_nat n)"
proof (induction n rule: show_nat.induct)
  case (1 n)
  show ?case
  proof (cases "n < 10")
    case True
    then show ?thesis by (simp add: show_nat.simps [of n] is_digit_digit_char)
  next
    case False
    with 1 show ?thesis by (simp add: show_nat.simps [of n] is_digit_digit_char)
  qed
qed

lemma show_nat_nonempty: "show_nat n \<noteq> []"
  by (simp add: show_nat.simps [of n])

lemma show_nat_hundreds:
  "100 \<le> n \<Longrightarrow> show_nat n = show_nat (n div 100) @ two_digits n"
proof -
  assume a: "100 \<le> n"
  then have "\<not> n < 10" and "\<not> n div 10 < 10" by auto
  then have "show_nat n = (show_nat (n div 10 div 10) @ [digit_char (n div 10 mod 10)])
      @ [digit_char (n mod 10)]"
    by (simp add: show_nat.simps [of n] show_nat.simps [of "n div 10"])
  then show ?thesis by (simp add: two_digits_def div_mult2_eq [symmetric])
qed

lemma show_nat_small: "n < 10 \<Longrightarrow> show_nat n = [digit_char n]"
  by (simp add: show_nat.simps [of n])

lemma show_nat_tens:
  assumes "10 \<le> n" and "n < 100"
  shows "show_nat n = two_digits n"
proof -
  from assms have "n div 10 < 10" and "\<not> n < 10" by auto
  then show ?thesis
    by (simp add: show_nat.simps [of n] show_nat.simps [of "n div 10"] two_digits_def)
qed

lemma toFixed_two:
  "toFixed_hundredths num 2 =
     (if num < 0 then ''-'' else []) @ show_nat (nat \<bar>num\<bar> div 100) @ ''.'' @ two_digits (nat \<bar>num\<bar>)"
proof -
  let ?a = "nat \<bar>num\<bar>"
  have n: "(?a * 10 ^ 2 + 50) div 100 = ?a" by simp
  consider "?a < 10" | "10 \<le> ?a" "?a < 100" | "100 \<le> ?a" by linarith
  then have "(let m = show_nat ?a;
                  z = (if length m \<le> 2 then replicate (2 + 1 - length m) (CHR ''0'') @ m else m);
                  k = length z
              in take (k - 2) z @ ''.'' @ drop (k - 2) z)
        = show_nat (?a div 100) @ ''.'' @ two_digits ?a"
  proof cases
    case 1
    then show ?thesis
      by (simp add: show_nat_small two_digits_def digit_char_def numeral_3_eq_3 numeral_2_eq_2)
  next
    case 2
    then show ?thesis
      by (simp add: show_nat_tens show_nat_small two_digits_def digit_char_def)
  next
    case 3
    have "length (show_nat (?a div 100)) > 0" using show_nat_nonempty by simp
    with 3 show ?thesis
      by (simp add: show_nat_hundreds two_digits_def Let_def)
  qed
  then show ?thesis
    unfolding toFixed_hundredths_def n by (simp add: Let_def)
qed

lemma toFixed_zero:
  "toFixed_hundredths num 0 =
     (if num < 0 then ''-'' else []) @ show_nat ((nat \<bar>num\<bar> + 50) div 100)"
  by (simp add: toFixed_hundredths_def Let_def)


lemma split_dot_no_dot: "CHR ''.'' \<notin> set s \<Longrightarrow> split_dot s = [s]"
  by (induction s) auto

lemma split_dot_one:
  "CHR ''.'' \<notin> set a \<Longrightarrow> CHR ''.'' \<notin> set b \<Longrightarrow> split_dot (a @ ''.'' @ b) = [a, b]"
  by (induction a) (auto simp: split_dot_no_dot)

lemma not_digit: "\<not> is_digit (CHR ''.'')" "\<not> is_digit (CHR ''-'')"
  by (simp_all add: is_digit_def)

lemma digits_no_dot: "list_all is_digit ds \<Longrightarrow> CHR ''.'' \<notin> set ds"
  using not_digit(1) by (auto simp: list_all_iff)

lemma two_digits_digits: "list_all is_digit (two_digits n)"
  by (simp add: two_digits_def is_digit_digit_char)

lemma digit_run_digits: "list_all is_digit ds \<Longrightarrow> digit_run ds = length ds"
  by (simp add: digit_run_def list_all_iff takeWhile_eq_all_conv [THEN iffD2])

lemma insert_thousands_short:
  "list_all is_digit ds \<Longrightarrow> length ds \<le> 3 \<Longrightarrow> insert_thousands sep ds = ds"
  by (induction ds) (auto simp: digit_run_digits)

lemma insert_thousands_last_group:
  "list_all is_digit a \<Longrightarrow> list_all is_digit b \<Longrightarrow> length b = 3 \<Longrightarrow> a \<noteq> [] \<Longrightarrow>
   insert_thousands sep (a @ b) = insert_thousands sep a @ sep @ b"
proof (induction a)
  case Nil
  then show ?case by simp
next
  case (Cons c cs)
  have run: "digit_run (cs @ b) = length cs + 3" "digit_run cs = length cs"
    using Cons.prems by (simp_all add: digit_run_digits)
  show ?case
  proof (cases "cs = []")
    case True
    with Cons.prems run show ?thesis by (simp add: insert_thousands_short)
  next
    case False
    with Cons have "insert_thousands sep (cs @ b) = insert_thousands sep cs @ sep @ b" by simp
    with False run show ?thesis by simp
  qed
qed

lemma insert_thousands_groups:
  "list_all is_digit ds \<Longrightarrow> insert_thousands sep ds = group_thousands sep ds"
proof (induction sep ds rule: group_thousands.induct)
  case (1 sep ds)
  show ?case
  proof (cases "length ds \<le> 3")
    case True
    with 1 show ?thesis by (simp add: insert_thousands_short group_thousands.simps [of sep ds])
  next
    case False
    let ?a = "take (length ds - 3) ds" and ?b = "drop (length ds - 3) ds"
    from 1(2) have d: "list_all is_digit ?a" "list_all is_digit ?b"
      by (auto simp: list_all_iff dest: in_set_takeD in_set_dropD)
    from False have l: "length ?b = 3" "?a \<noteq> []" by auto
    have "insert_thousands sep (?a @ ?b) = insert_thousands sep ?a @ sep @ ?b"
      using d l by (rule insert_thousands_last_group)
    with 1(1) [OF False d(1)] False show ?thesis
      by (simp add: group_thousands.simps [of sep ds])
  qed
qed

lemma insert_thousands_signed:
  "list_all is_digit ds \<Longrightarrow>
   insert_thousands sep ((if neg then ''-'' else []) @ ds)
     = (if neg then ''-'' else []) @ group_thousands sep ds"
  by (simp add: insert_thousands_groups not_digit)

lemma delimit_rendered:
  assumes "precision = 0 \<or> precision = 2" and "safe_amount num"
  shows "delimit w num (Some precision) thousands decimal
         = rendered num precision (or_else thousands '','') (or_else decimal ''.'')"
proof -
  let ?sign = "if num < 0 then ''-'' else []"
  let ?a = "nat \<bar>num\<bar>"
  have fixed: "toFixed w num precision = toFixed_hundredths num precision"
    using assms by (simp add: toFixed_def)
  have nodot: "CHR ''.'' \<notin> set (?sign @ show_nat k)" for k
    using digits_no_dot [OF show_nat_digits [of k]] by simp
  from assms(1) show ?thesis
  proof
    assume p: "precision = 0"
    have "split_dot (toFixed_hundredths num 0) = [?sign @ show_nat ((?a + 50) div 100)]"
      unfolding toFixed_zero using nodot by (rule split_dot_no_dot)
    with fixed show ?thesis
      by (simp add: p delimit_def rendered_def part_def Let_def
            insert_thousands_signed [OF show_nat_digits])
  next
    assume p: "precision = 2"
    have f: "toFixed_hundredths num 2 = (?sign @ show_nat (?a div 100)) @ ''.'' @ two_digits ?a"
      by (simp add: toFixed_two)
    have "CHR ''.'' \<notin> set (two_digits ?a)"
      using digits_no_dot [OF two_digits_digits] .
    with nodot
    have "split_dot ((?sign @ show_nat (?a div 100)) @ ''.'' @ two_digits ?a)
          = [?sign @ show_nat (?a div 100), two_digits ?a]"
      by (rule split_dot_one)
    with f
    have "split_dot (toFixed_hundredths num 2) = [?sign @ show_nat (?a div 100), two_digits ?a]"
      by simp
    with fixed show ?thesis
      by (simp add: p delimit_def rendered_def part_def Let_def two_digits_def
            insert_thousands_signed [OF show_nat_digits])
  qed
qed

text \<open>
  The formatter of the first widget renders the mode of the template's placeholder as
  the mode table says, for every safe amount and every template with a placeholder.
\<close>

lemma formatMoney_mode_table:
  assumes "safe_amount cents"
    and "find_placeholder (or_else (theme_moneyFormat w) (or_else (Theme_moneyFormat w) ''${{amount}}''))
           = Some (before, key, rest)"
  shows "formatMoney w cents =
     (case mode_table key of
        (decimals, thousands, decimal) \<Rightarrow>
           before @ rendered cents decimals thousands decimal @ rest)"
  using assms
  by (simp add: formatMoney_def parseInt_number_def replace_placeholder_def Let_def
        mode_table_def delimit_rendered or_else_def)

lemma delimit_two_decimals:
  "formatWithDelimiters w cents (Some 2) thousands decimal = delimit w cents (Some 2) thousands decimal"
  by (simp add: formatWithDelimiters_def delimit_def Let_def split: option.splits)

lemma example_templates:
  "find_placeholder ''${{amount}}'' = Some (''$'', ''amount'', [])"
  "find_placeholder ''{{ amount_with_comma_separator }} EUR''
     = Some ([], ''amount_with_comma_separator'', '' EUR'')"
  "find_placeholder ''USD'' = None"
  by code_simp+

lemma class_no_decimals:
  "formatWithDelimiters w cents (Some 0) thousands decimal = delimit w cents (Some 2) thousands decimal"
  by (simp add: formatWithDelimiters_def delimit_def Let_def split: option.splits)

text \<open>
  The formatter of the class renders every mode with two decimals, with the separators
  of the mode table, for every safe amount.
\<close>

lemma class_formatMoney_two_decimals:
  assumes "safe_amount cents"
    and "find_placeholder (or_else (theme_moneyFormat w) ''${{amount}}'') = Some (before, key, rest)"
  shows "class_formatMoney w cents =
     (case mode_table key of
        (decimals, thousands, decimal) \<Rightarrow>
           Inr (before @ rendered cents 2 thousands decimal @ rest))"
  using assms
  by (simp add: class_formatMoney_def replace_placeholder_def Let_def mode_table_def
        class_no_decimals delimit_two_decimals delimit_rendered or_else_def)

lemma formatMoney_with_format:
  "fmt \<noteq> [] \<Longrightarrow> find_placeholder fmt = Some (before, key, rest) \<Longrightarrow> safe_amount cents \<Longrightarrow>
   formatMoney (with_format fmt) cents =
     before @
     (if key = ''amount'' then delimit (with_format fmt) cents (Some 2) None None
      else if key = ''amount_no_decimals'' then delimit (with_format fmt) cents (Some 0) None None
      else if key = ''amount_with_comma_separator''
        then delimit (with_format fmt) cents (Some 2) (Some ''.'') (Some '','')
      else if key = ''amount_no_decimals_with_comma_separator''
        then delimit (with_format fmt) cents (Some 0) (Some ''.'') (Some '','')
      else if key = ''amount_no_decimals_with_space_separator''
        then delimit (with_format fmt) cents (Some 0) (Some '' '') None
      else delimit (with_format fmt) cents (Some 2) None None) @ rest"
  by (simp add: formatMoney_def parseInt_number_def with_format_def page_def or_else_def
        replace_placeholder_def Let_def)

lemma class_formatMoney_with_format:
  "fmt \<noteq> [] \<Longrightarrow> find_placeholder fmt = Some (before, key, rest) \<Longrightarrow>
   class_formatMoney (with_format fmt) cents =
     Inr (before @
     (if key = ''amount'' then delimit (with_format fmt) cents (Some 2) None None
      else if key = ''amount_no_decimals'' then delimit (with_format fmt) cents (Some 2) None None
      else if key = ''amount_with_comma_separator''
        then delimit (with_format fmt) cents (Some 2) (Some ''.'') (Some '','')
      else if key = ''amount_no_decimals_with_comma_separator''
        then delimit (with_format fmt) cents (Some 2) (Some ''.'') (Some '','')
      else if key = ''amount_no_decimals_with_space_separator''
        then delimit (with_format fmt) cents (Some 2) (Some '' '') None
      else delimit (with_format fmt) cents (Some 2) None None) @ rest)"
  by (simp add: class_formatMoney_def with_format_def page_def or_else_def
        replace_placeholder_def Let_def class_no_decimals delimit_two_decimals)

lemmas delimit_eval = delimit_def toFixed_def safe_amount_def toFixed_hundredths_def
  show_nat.simps digit_char_def Let_def or_else_def part_def digit_run_def is_digit_def

lemma delimit_examples:
  "delimit w 123456 (Some 2) None None = ''1,234.56''"
  "delimit w 100 (Some 0) None None = ''1''"
  "delimit w 100 (Some 2) None None = ''1.00''"
  "delimit w 100050 (Some 2) (Some ''.'') (Some '','') = ''1.000,50''"
  by (simp_all add: delimit_eval)

lemma more_templates:
  "find_placeholder ''{{amount_no_decimals}}'' = Some ([], ''amount_no_decimals'', [])"
  "find_placeholder ''{{amount_with_comma_separator}}''
     = Some ([], ''amount_with_comma_separator'', [])"
  by code_simp+

text \<open>
  C4. The three renderings the specification gives hold for the formatter of the first
  widget, which meets the mode table for every safe amount (\<open>formatMoney_mode_table\<close>). The
  formatter of the class renders the mode \<open>amount_no_decimals\<close> with two decimals,
  \<open>1.00\<close> where the table asks for \<open>1\<close>: its default \<open>precision || 2\<close> replaces the
  precision \<open>0\<close> of the three modes without decimals (\<open>class_no_decimals\<close>,
  \<open>class_formatMoney_two_decimals\<close>).
\<close>

theorem no_decimals_mode_in_class:
  "formatMoney (with_format ''${{amount}}'') 123456 = ''$1,234.56''
   \<and> formatMoney (with_format ''{{amount_no_decimals}}'') 100 = ''1''
   \<and> formatMoney (with_format ''{{amount_with_comma_separator}}'') 100050 = ''1.000,50''
   \<and> class_formatMoney (with_format ''${{amount}}'') 123456 = Inr ''$1,234.56''
   \<and> class_formatMoney (with_format ''{{amount_no_decimals}}'') 100 = Inr ''1.00''
   \<and> class_formatMoney (with_format ''{{amount_with_comma_separator}}'') 100050 = Inr ''1.000,50''"
  using formatMoney_with_format [OF _ example_templates(1), of 123456]
    formatMoney_with_format [OF _ more_templates(1), of 100]
    formatMoney_with_format [OF _ more_templates(2), of 100050]
    class_formatMoney_with_format [OF _ example_templates(1), of 123456]
    class_formatMoney_with_format [OF _ more_templates(1), of 100]
    class_formatMoney_with_format [OF _ more_templates(2), of 100050]
  by (simp add: delimit_examples safe_amount_def)

text \<open>
  C5. For a template without a placeholder the formatter of the class does not return:
  it reads the capture of a match that is \<open>null\<close> and ends with a \<open>TypeError\<close>. The
  formatter of the first widget guards the match and returns the template as it is.
\<close>

theorem missing_placeholder_in_class:
  "(find_placeholder (or_else (theme_moneyFormat w) ''${{amount}}'') = None
      \<longrightarrow> class_formatMoney w cents = Inl TypeError)
   \<and> (find_placeholder (or_else (theme_moneyFormat w) (or_else (Theme_moneyFormat w) ''${{amount}}''))
        = None
      \<longrightarrow> formatMoney w cents
          = or_else (theme_moneyFormat w) (or_else (Theme_moneyFormat w) ''${{amount}}''))"
  by (simp add: class_formatMoney_def formatMoney_def replace_placeholder_def Let_def)

theorem missing_placeholder_in_class_witness:
  "class_formatMoney (with_format ''USD'') 1234 = Inl TypeError
   \<and> formatMoney (with_format ''USD'') 1234 = ''USD''"
  using missing_placeholder_in_class [where w = "with_format ''USD''" and cents = 1234]
    example_templates
  by (simp add: with_format_def page_def or_else_def)




section \<open>Agreement of the two implementations\<close>

lemma as_objects_simps [simp]:
  "map name (options (as_objects p)) = options p"
  "variants (as_objects p) = variants p"
  "length (options (as_objects p)) = length (options p)"
  by (simp_all add: as_objects_def comp_def)

lemma getOptionValues_as_objects:
  "getOptionValues (as_objects p) position = getUniqueOptionValues p position"
  by (simp add: getOptionValues_def getUniqueOptionValues_def)

lemma render_options_as_objects:
  "\<forall>n \<in> set names. includes_str (toLowerCase n) ''size'' \<longrightarrow> toLowerCase n = ''size'' \<Longrightarrow>
   class_render_options (as_objects p) idx names sel = render_options p idx names sel"
proof (induction names arbitrary: idx sel)
  case Nil
  then show ?case by simp
next
  case (Cons n names)
  have size: "includes_str (toLowerCase n) ''size'' \<longleftrightarrow> toLowerCase n = ''size''"
    using Cons.prems by auto
  from Cons.prems
  have IH: "\<And>idx sel. class_render_options (as_objects p) idx names sel
              = render_options p idx names sel"
    by (intro Cons.IH) simp
  show ?case
    by (simp add: Let_def getOptionValues_as_objects size IH buildSelect_def buildButtons_def
          split: list.splits)
qed

lemma cart_items_none:
  "selectedVariant s = None \<Longrightarrow> posted_items (fst (handleAddToCart net s)) = []"
  "this_selectedVariant c = None \<Longrightarrow> posted_items (fst (class_handleAddToCart w net c)) = []"
  by (simp_all add: handleAddToCart_def class_handleAddToCart_def)

text \<open>
  C1 as amended. The two implementations resolve the same variant for every product and
  selection state, and post the same items for every selected variant, selection state
  and answer of the network, the class reading each option as an object with the name
  the first widget reads. They build the same pickers and the same selection state for
  a product none of whose option names contains \<open>size\<close> without being equal to it.
  They format a safe amount, one below \<open>2 ^ 52\<close> minor units in absolute value, alike
  when both read the same template, the template has a placeholder and its mode is not
  one of the three without decimals. Beyond the safe amounts the first widget formats
  what \<open>parseInt\<close> makes of the amount and the class the amount itself, and nothing is
  claimed.
\<close>

theorem implementations_agree:
  "match_variant p sel = class_match_variant (as_objects p) sel
   \<and> (selectedVariant s = this_selectedVariant c \<and> selections s = this_variantSelections c
      \<longrightarrow> posted_items (fst (handleAddToCart net s))
          = posted_items (fst (class_handleAddToCart w net c)))
   \<and> (size_by_name_only p \<and> selections s = this_variantSelections c
      \<longrightarrow> elVariants (renderVariantSelectors p s) = popupVariants (renderVariants (as_objects p) c)
          \<and> selections (renderVariantSelectors p s)
              = this_variantSelections (renderVariants (as_objects p) c))
   \<and> (same_template w \<and> safe_amount cents
       \<and> find_placeholder (or_else (theme_moneyFormat w) ''${{amount}}'') = Some (before, key, rest)
       \<and> key \<notin> set no_decimals_modes
      \<longrightarrow> class_formatMoney w cents = Inr (formatMoney w cents))"
proof -
  have a: "match_variant p sel = class_match_variant (as_objects p) sel"
    by (simp add: match_variant_find class_match_variant_find)
  have b: "posted_items (fst (handleAddToCart net s))
          = posted_items (fst (class_handleAddToCart w net c))"
    if "selectedVariant s = this_selectedVariant c \<and> selections s = this_variantSelections c"
  proof (cases "selectedVariant s")
    case None
    with that show ?thesis by (simp add: cart_items_none)
  next
    case (Some sv)
    with that have "this_selectedVariant c = Some sv"
      and "selections s = this_variantSelections c"
      by simp_all
    with Some show ?thesis
      by (simp add: handleAddToCart_posted class_handleAddToCart_posted)
  qed
  have c: "elVariants (renderVariantSelectors p s) = popupVariants (renderVariants (as_objects p) c)
          \<and> selections (renderVariantSelectors p s)
              = this_variantSelections (renderVariants (as_objects p) c)"
    if "size_by_name_only p \<and> selections s = this_variantSelections c"
  proof -
    from that have r: "\<And>idx sel. class_render_options (as_objects p) idx (options p) sel
        = render_options p idx (options p) sel"
      by (intro render_options_as_objects) (simp add: size_by_name_only_def list_all_iff)
    have t: "name (options (as_objects p) ! 0) = options p ! 0" if "length (options p) = 1"
      using that by (simp add: as_objects_def)
    show ?thesis
      using that t
      by (auto simp: renderVariantSelectors_def renderVariants_def Let_def r split_beta)
  qed
  have d: "class_formatMoney w cents = Inr (formatMoney w cents)"
    if "same_template w \<and> safe_amount cents
       \<and> find_placeholder (or_else (theme_moneyFormat w) ''${{amount}}'') = Some (before, key, rest)
       \<and> key \<notin> set no_decimals_modes"
    using that
    by (simp add: class_formatMoney_def formatMoney_def parseInt_number_def same_template_def
          no_decimals_modes_def delimit_two_decimals Let_def)
  from a b c d show ?thesis by blast
qed

text \<open>
  C1 as stated fails: for an option named \<open>Shoe Size\<close> the first widget, which compares
  the lower-cased name with \<open>size\<close>, builds a row of buttons, and the class, which
  looks for \<open>size\<close> inside it, builds a dropdown.
\<close>

theorem picker_kind_differs:
  "elVariants (renderVariantSelectors shoe shown)
   \<noteq> popupVariants (renderVariants (as_objects shoe) class_shown)"
  by code_simp


lemma shirt_size_by_name_only: "size_by_name_only shirt"
  by code_simp


theorem implementations_agree_witness:
  "match_variant shirt [(''Size'', ''Medium'')] = class_match_variant shirt_objects [(''Size'', ''Medium'')]
   \<and> posted_items (fst (handleAddToCart online black_medium_shown))
       = posted_items (fst (class_handleAddToCart page online class_black_medium_shown))
   \<and> elVariants (renderVariantSelectors shirt shown)
       = popupVariants (renderVariants shirt_objects class_shown)
   \<and> class_formatMoney (with_format ''{{ amount_with_comma_separator }} EUR'') 100050
       = Inr (formatMoney (with_format ''{{ amount_with_comma_separator }} EUR'') 100050)"
proof -
  let ?w = "with_format ''{{ amount_with_comma_separator }} EUR''"
  have o: "as_objects shirt = shirt_objects"
    by (simp add: as_objects_def shirt_def shirt_objects_def)
  have sel: "selectedVariant black_medium_shown = this_selectedVariant class_black_medium_shown"
    "selections black_medium_shown = this_variantSelections class_black_medium_shown"
    "selections shown = this_variantSelections class_shown"
    by (simp_all add: black_medium_shown_def class_black_medium_shown_def shown_def
          class_shown_def)
  have tmpl: "same_template ?w"
    "or_else (theme_moneyFormat ?w) ''${{amount}}'' = ''{{ amount_with_comma_separator }} EUR''"
    "''amount_with_comma_separator'' \<notin> set no_decimals_modes"
    "safe_amount 100050"
    by (simp_all add: same_template_def with_format_def page_def or_else_def
          no_decimals_modes_def safe_amount_def)
  note t = implementations_agree [where p = shirt and sel = "[(''Size'', ''Medium'')]"
      and s = black_medium_shown and c = class_black_medium_shown and net = online and w = page]
  note u = implementations_agree [where p = shirt and s = shown and c = class_shown
      and w = ?w and before = "[]" and key = "''amount_with_comma_separator''"
      and rest = "'' EUR''" and cents = 100050]
  from t u o sel tmpl shirt_size_by_name_only example_templates show ?thesis
    by simp
qed

end
